theory Spec2Isabelle
  imports Complex_Main "HOL-Library.AList"
begin

section \<open>Floating-point values and Python errors\<close>

text \<open>
  The program computes with IEEE doubles through numpy. The embedding keeps the special
  values that the program's behaviour depends on (not-a-number and the two infinities)
  and takes every finite value as a real number: rounding and overflow of finite values
  are not modelled.
\<close>

datatype fl = Fin real | PInf | NInf | NaN

fun fl_add :: "fl \<Rightarrow> fl \<Rightarrow> fl" where
  "fl_add NaN y = NaN"
| "fl_add x NaN = NaN"
| "fl_add (Fin a) (Fin b) = Fin (a + b)"
| "fl_add PInf NInf = NaN"
| "fl_add NInf PInf = NaN"
| "fl_add PInf y = PInf"
| "fl_add x PInf = PInf"
| "fl_add NInf y = NInf"
| "fl_add x NInf = NInf"

fun fl_mul :: "fl \<Rightarrow> fl \<Rightarrow> fl" where
  "fl_mul NaN y = NaN"
| "fl_mul x NaN = NaN"
| "fl_mul (Fin a) (Fin b) = Fin (a * b)"
| "fl_mul (Fin a) PInf = (if a = 0 then NaN else if 0 < a then PInf else NInf)"
| "fl_mul (Fin a) NInf = (if a = 0 then NaN else if 0 < a then NInf else PInf)"
| "fl_mul PInf (Fin b) = (if b = 0 then NaN else if 0 < b then PInf else NInf)"
| "fl_mul NInf (Fin b) = (if b = 0 then NaN else if 0 < b then NInf else PInf)"
| "fl_mul PInf PInf = PInf"
| "fl_mul PInf NInf = NInf"
| "fl_mul NInf PInf = NInf"
| "fl_mul NInf NInf = PInf"

text \<open>\<^verbatim>\<open>x**2\<close> on a float array is the elementwise square.\<close>

definition fl_pow2 :: "fl \<Rightarrow> fl" where
  "fl_pow2 x = fl_mul x x"

fun fl_sqrt :: "fl \<Rightarrow> fl" where
  "fl_sqrt (Fin a) = (if a < 0 then NaN else Fin (sqrt a))"
| "fl_sqrt PInf = PInf"
| "fl_sqrt NInf = NaN"
| "fl_sqrt NaN = NaN"

fun fl_log :: "fl \<Rightarrow> fl" where
  "fl_log (Fin a) = (if a < 0 then NaN else if a = 0 then NInf else Fin (ln a))"
| "fl_log PInf = PInf"
| "fl_log NInf = NaN"
| "fl_log NaN = NaN"

datatype error = IndexError | KeyError string | ZeroDivisionError | ValueError

definition bindE :: "error + 'a \<Rightarrow> ('a \<Rightarrow> error + 'b) \<Rightarrow> error + 'b" where
  "bindE m f = (case m of Inl e \<Rightarrow> Inl e | Inr x \<Rightarrow> f x)"

text \<open>Python's \<^verbatim>\<open>round\<close> on a float: to the nearest integer, a tie to the even one.\<close>

definition py_round :: "real \<Rightarrow> int" where
  "py_round x =
     (let f = \<lfloor>x\<rfloor>; d = x - of_int f
      in if d < 1 / 2 then f else if 1 / 2 < d then f + 1
         else if even f then f else f + 1)"

text \<open>Python's \<^verbatim>\<open>int\<close> on a float truncates towards zero.\<close>

definition py_int :: "real \<Rightarrow> int" where
  "py_int x = (if 0 \<le> x then \<lfloor>x\<rfloor> else \<lceil>x\<rceil>)"

section \<open>Strain calculator\<close>

text \<open>
  A binary numpy operation on two one-dimensional arrays: elementwise when the lengths
  agree, a length-one operand is broadcast, any other pair of lengths raises.
\<close>

definition bc2 :: "(fl \<Rightarrow> fl \<Rightarrow> fl) \<Rightarrow> fl list \<Rightarrow> fl list \<Rightarrow> error + fl list" where
  "bc2 f xs ys =
     (if length xs = length ys then Inr (map2 f xs ys)
      else if length xs = 1 then Inr (map (f (hd xs)) ys)
      else if length ys = 1 then Inr (map (\<lambda>x. f x (hd ys)) xs)
      else Inl ValueError)"

text \<open>The arguments of the two square roots, \<^verbatim>\<open>1 + 2*dudx + dudx**2 + dudy**2\<close> and
  \<^verbatim>\<open>1 + 2*dvdy + dvdx**2 + dvdy**2\<close>, each evaluated left to right.\<close>

definition exx_arg :: "fl list \<Rightarrow> fl list \<Rightarrow> error + fl list" where
  "exx_arg dudx dudy =
     bindE (bc2 fl_add (map (fl_add (Fin 1)) (map (fl_mul (Fin 2)) dudx)) (map fl_pow2 dudx))
       (\<lambda>t. bc2 fl_add t (map fl_pow2 dudy))"

definition eyy_arg :: "fl list \<Rightarrow> fl list \<Rightarrow> error + fl list" where
  "eyy_arg dvdx dvdy =
     bindE (bc2 fl_add (map (fl_add (Fin 1)) (map (fl_mul (Fin 2)) dvdy)) (map fl_pow2 dvdx))
       (\<lambda>t. bc2 fl_add t (map fl_pow2 dvdy))"

definition euler_almansi_n ::
  "fl list \<Rightarrow> fl list \<Rightarrow> fl list \<Rightarrow> fl list \<Rightarrow> error + (fl list \<times> fl list \<times> fl list)" where
  "euler_almansi_n dudx dudy dvdx dvdy =
     bindE (exx_arg dudx dudy) (\<lambda>ax.
     let exx = map fl_log (map fl_sqrt ax) in
     bindE (eyy_arg dvdx dvdy) (\<lambda>ay.
     let eyy = map fl_log (map fl_sqrt ay) in
     bindE (bc2 fl_mul dvdx (map (fl_add (Fin 1)) dudx)) (\<lambda>s1.
     bindE (bc2 fl_mul dudy (map (fl_add (Fin 1)) dvdy)) (\<lambda>s2.
     bindE (bc2 fl_add s1 s2) (\<lambda>exy.
     Inr (exx, eyy, exy))))))"

text \<open>The same formulas at one point, for comparison with the array computation.\<close>

definition exx_arg_pt :: "fl \<Rightarrow> fl \<Rightarrow> fl" where
  "exx_arg_pt dudx dudy =
     fl_add (fl_add (fl_add (Fin 1) (fl_mul (Fin 2) dudx)) (fl_pow2 dudx)) (fl_pow2 dudy)"

definition eyy_arg_pt :: "fl \<Rightarrow> fl \<Rightarrow> fl" where
  "eyy_arg_pt dvdx dvdy =
     fl_add (fl_add (fl_add (Fin 1) (fl_mul (Fin 2) dvdy)) (fl_pow2 dvdx)) (fl_pow2 dvdy)"

definition exx_pt :: "fl \<Rightarrow> fl \<Rightarrow> fl" where
  "exx_pt dudx dudy = fl_log (fl_sqrt (exx_arg_pt dudx dudy))"

definition eyy_pt :: "fl \<Rightarrow> fl \<Rightarrow> fl" where
  "eyy_pt dvdx dvdy = fl_log (fl_sqrt (eyy_arg_pt dvdx dvdy))"

definition exy_pt :: "fl \<Rightarrow> fl \<Rightarrow> fl \<Rightarrow> fl \<Rightarrow> fl" where
  "exy_pt dudx dudy dvdx dvdy =
     fl_add (fl_mul dvdx (fl_add (Fin 1) dudx)) (fl_mul dudy (fl_add (Fin 1) dvdy))"

section \<open>Local gradient estimator\<close>

type_synonym point = "real \<times> real \<times> real"

text \<open>
  \<^verbatim>\<open>np.linalg.lstsq\<close> belongs to numpy, not to this repository: it is a parameter of
  the model. It receives the basis matrix (one row of four entries per window point) and
  the samples, and returns the four fitted coefficients or raises.
\<close>

type_synonym lstsq = "real list list \<Rightarrow> fl list \<Rightarrow> error + (fl \<times> fl \<times> fl \<times> fl)"

text \<open>\<^verbatim>\<open>xdata\<close> is the pair of coordinate rows \<^verbatim>\<open>point_data[:,:2].T\<close>.\<close>

definition L_Q4_n :: "real list \<times> real list \<Rightarrow> real list list" where
  "L_Q4_n x = map2 (\<lambda>a b. [1, a, b, a * b]) (fst x) (snd x)"

definition evaluate_point_dev_n ::
  "lstsq \<Rightarrow> int \<Rightarrow> point list \<Rightarrow> fl list \<Rightarrow> error + (fl \<times> fl)" where
  "evaluate_point_dev_n lstsq window_size point_data data =
     (let xdata = (map fst point_data, map (fst \<circ> snd) point_data);
          xbasis = L_Q4_n xdata;
          ydata = data
      in if int (length ydata) < window_size ^ 2 then Inr (NaN, NaN)
         else bindE (lstsq xbasis ydata) (\<lambda>(a, b, c, d).
              let k = py_round (real_of_int (window_size ^ 2) / 2)
              in if k < 0 \<or> int (length point_data) \<le> k then Inl IndexError
                 else let px = (fst xdata ! nat k, snd xdata ! nat k)
                      in Inr (fl_add b (fl_mul d (Fin (snd px))),
                              fl_add c (fl_mul d (Fin (fst px))))))"

text \<open>
  The estimator as the specification words it: the derivatives are taken at the window
  point whose index is \<^verbatim>\<open>round(N/2)\<close>, \<open>N\<close> the number of samples.
\<close>

definition spec_evaluate_point_dev ::
  "lstsq \<Rightarrow> point list \<Rightarrow> fl list \<Rightarrow> error + (fl \<times> fl)" where
  "spec_evaluate_point_dev lstsq point_data data =
     bindE (lstsq (map (\<lambda>(x, y, z). [1, x, y, x * y]) point_data) data) (\<lambda>(a, b, c, d).
       let k = py_round (real (length data) / 2)
       in if k < 0 \<or> int (length point_data) \<le> k then Inl IndexError
          else (case point_data ! nat k of (xc, yc, zc) \<Rightarrow>
                  Inr (fl_add b (fl_mul d (Fin yc)), fl_add c (fl_mul d (Fin xc)))))"

text \<open>
  A solver for the examples: the coefficients of \<open>f(x, y) = x * y\<close>, which is what least
  squares returns on samples of that function over a window of full rank, where the fit
  is exact.
\<close>

definition lstsq_xy :: lstsq where
  "lstsq_xy A y = Inr (Fin 0, Fin 0, Fin 0, Fin 1)"

section \<open>Meshes and the time-series container\<close>

text \<open>
  A mesh snapshot, as far as the program reads and writes it: the point coordinates
  (\<^verbatim>\<open>number_of_points\<close> is their count), the named per-point arrays in the order
  \<^verbatim>\<open>array_names\<close> lists them, and the bounding box
  \<^verbatim>\<open>(xmin, xmax, ymin, ymax, zmin, zmax)\<close>.
\<close>

record mesh =
  points :: "point list"
  point_data :: "(string \<times> fl list) list"
  bounds :: "real \<times> real \<times> real \<times> real \<times> real \<times> real"

datatype pyval = PBool bool | PStr string | PFloat real | PInt int

type_synonym metadata = "string \<rightharpoonup> pyval"

text \<open>
  A metadata mapping is a Python dict, an object that several containers may hold: the
  store maps the address of each dict to its content, and a container holds an address.
\<close>

type_synonym addr = nat

type_synonym store = "addr \<Rightarrow> metadata"

text \<open>
  Modelled from the spec: the class \<^verbatim>\<open>SpatialData\<close> is not among the sources. Its
  constructor takes the snapshots, the index, time and load sequences and the metadata
  mapping and holds them as \<^verbatim>\<open>data_sets\<close>, \<^verbatim>\<open>_index\<close>, \<^verbatim>\<open>_time\<close>, \<^verbatim>\<open>_load\<close>
  and \<^verbatim>\<open>_metadata\<close>.
\<close>

record spatialdata =
  data_sets :: "mesh list"
  sd_index :: "int list"
  sd_time :: "real list"
  sd_load :: "real list"
  sd_metadata :: addr

definition setitem :: "store \<Rightarrow> addr \<Rightarrow> string \<Rightarrow> pyval \<Rightarrow> store" where
  "setitem st a k v = st(a := (st a)(k \<mapsto> v))"

definition set_field :: "string \<Rightarrow> fl list \<Rightarrow> mesh \<Rightarrow> mesh" where
  "set_field name arr m = m\<lparr>point_data := AList.update name arr (point_data m)\<rparr>"

section \<open>Grid interpolator\<close>

text \<open>\<^verbatim>\<open>np.linspace(start, stop, num)\<close>: \<open>num\<close> samples, the end point included.\<close>

definition linspace :: "real \<Rightarrow> real \<Rightarrow> int \<Rightarrow> error + real list" where
  "linspace start stop num =
     (if num < 0 then Inl ValueError
      else if num = 1 then Inr [start]
      else Inr (map (\<lambda>i. start + real i * ((stop - start) / real (nat num - 1)))
                  [0..<nat num]))"

definition axis_coords :: "real \<Rightarrow> real \<Rightarrow> real \<Rightarrow> error + real list" where
  "axis_coords lo hi spacing =
     (if spacing = 0 then Inl ZeroDivisionError
      else linspace lo hi (py_int ((hi - lo) / spacing)))"

text \<open>
  \<^verbatim>\<open>np.meshgrid(xr, yr, zr)\<close> with a scalar \<^verbatim>\<open>zr\<close> and the structured grid made of
  it: one point per pair of an x and a y coordinate, all at height \<^verbatim>\<open>zr\<close>.
\<close>

definition grid_points :: "real list \<Rightarrow> real list \<Rightarrow> real \<Rightarrow> point list" where
  "grid_points xr yr zr = concat (map (\<lambda>x. map (\<lambda>y. (x, y, zr)) yr) xr)"

definition make_grid ::
  "real \<times> real \<times> real \<times> real \<times> real \<times> real \<Rightarrow> real \<Rightarrow> error + point list" where
  "make_grid b spacing =
     (case b of (b0, b1, b2, b3, b4, b5) \<Rightarrow>
        bindE (axis_coords b0 b1 spacing) (\<lambda>xr.
        bindE (axis_coords b2 b3 spacing) (\<lambda>yr.
        Inr (grid_points xr yr b5))))"

definition excluded_fields :: "string list" where
  "excluded_fields = [''ObjectId'', ''vtkGhostType'', ''vtkValidPointMask'', ''vtkGhostType'']"

text \<open>\<^verbatim>\<open>arr[mask == False] = np.nan\<close> with a boolean index as long as the array.\<close>

definition nan_where_invalid :: "fl list \<Rightarrow> fl list \<Rightarrow> fl list" where
  "nan_where_invalid vals valid = map2 (\<lambda>v m. if m = Fin 0 then NaN else v) vals valid"

definition mask_field :: "fl list \<Rightarrow> fl list \<Rightarrow> error + fl list" where
  "mask_field vals valid =
     (if length valid \<noteq> length vals then Inl IndexError
      else Inr (nan_where_invalid vals valid))"

definition getitem :: "mesh \<Rightarrow> string \<Rightarrow> error + fl list" where
  "getitem m name =
     (case map_of (point_data m) name of None \<Rightarrow> Inl (KeyError name) | Some arr \<Rightarrow> Inr arr)"

fun mask_fields :: "string list \<Rightarrow> mesh \<Rightarrow> error + mesh" where
  "mask_fields [] result = Inr result"
| "mask_fields (field # rest) result =
     (if field \<notin> set excluded_fields
      then (case getitem result field of Inl e \<Rightarrow> Inl e
            | Inr vals \<Rightarrow>
               (case getitem result ''vtkValidPointMask'' of Inl e \<Rightarrow> Inl e
                | Inr valid \<Rightarrow>
                   (case mask_field vals valid of Inl e \<Rightarrow> Inl e
                    | Inr vals' \<Rightarrow> mask_fields rest (set_field field vals' result))))
      else mask_fields rest result)"

text \<open>
  \<^verbatim>\<open>grid.sample(mesh)\<close> belongs to pyvista: it is a parameter. The body of the loop
  over the snapshots samples one mesh and masks the invalid points of the result.
\<close>

type_synonym sampler = "point list \<Rightarrow> mesh \<Rightarrow> mesh"

text \<open>
  What a sampling returns: among its arrays the validity mask, and every array as long
  as the mask (one entry per grid point).
\<close>

definition wf_result :: "mesh \<Rightarrow> bool" where
  "wf_result r =
     (case map_of (point_data r) ''vtkValidPointMask'' of None \<Rightarrow> False
      | Some valid \<Rightarrow> list_all (\<lambda>(name, arr). length arr = length valid) (point_data r))"

definition sample_and_mask :: "sampler \<Rightarrow> point list \<Rightarrow> mesh \<Rightarrow> error + mesh" where
  "sample_and_mask sample grid m =
     (let result = sample grid m in mask_fields (map fst (point_data result)) result)"

fun sample_all :: "sampler \<Rightarrow> point list \<Rightarrow> mesh list \<Rightarrow> error + mesh list" where
  "sample_all sample grid [] = Inr []"
| "sample_all sample grid (m # ms) =
     (case sample_and_mask sample grid m of Inl e \<Rightarrow> Inl e
      | Inr r \<Rightarrow> (case sample_all sample grid ms of Inl e \<Rightarrow> Inl e | Inr rs \<Rightarrow> Inr (r # rs)))"

text \<open>
  The result is the store after the call and the new container or the error raised.
  \<^verbatim>\<open>metadata = spatialdata._metadata\<close> binds the input's own dict, which the three
  assignments then write.
\<close>

definition interpolate_spatialdata_grid ::
  "sampler \<Rightarrow> store \<Rightarrow> spatialdata \<Rightarrow> real \<Rightarrow> store \<times> (error + spatialdata)" where
  "interpolate_spatialdata_grid sample st spatialdata spacing =
     (case data_sets spatialdata of [] \<Rightarrow> (st, Inl IndexError)
      | m0 # _ \<Rightarrow>
         (case make_grid (bounds m0) spacing of Inl e \<Rightarrow> (st, Inl e)
          | Inr grid \<Rightarrow>
             let metadata = sd_metadata spatialdata;
                 st1 = setitem st metadata ''interpolated'' (PBool True);
                 st2 = setitem st1 metadata ''interpolation_type'' (PStr ''grid'');
                 st3 = setitem st2 metadata ''grid_spacing'' (PFloat spacing)
             in (st3,
                 bindE (sample_all sample grid (data_sets spatialdata)) (\<lambda>data_sets_int.
                   Inr \<lparr>data_sets = data_sets_int, sd_index = sd_index spatialdata,
                        sd_time = sd_time spatialdata, sd_load = sd_load spatialdata,
                        sd_metadata = metadata\<rparr>))))"

text \<open>The input's metadata after the three assignments.\<close>

definition stamp_interpolated :: "store \<Rightarrow> addr \<Rightarrow> real \<Rightarrow> store" where
  "stamp_interpolated st a spacing =
     setitem (setitem (setitem st a ''interpolated'' (PBool True))
                a ''interpolation_type'' (PStr ''grid''))
       a ''grid_spacing'' (PFloat spacing)"

section \<open>Neighbour topology and window differentiator\<close>

text \<open>
  \<^verbatim>\<open>mesh.point_neighbors_levels(point, levels)\<close> belongs to pyvista: it is a parameter,
  giving for a point the list of its neighbours at each level.
\<close>

type_synonym neighbours_fn = "mesh \<Rightarrow> nat \<Rightarrow> int \<Rightarrow> nat list list"

definition get_points_neighbours :: "neighbours_fn \<Rightarrow> mesh \<Rightarrow> int \<Rightarrow> nat list list" where
  "get_points_neighbours point_neighbors_levels m window_size =
     (let n_points = length (points m);
          levels = py_int (real_of_int (window_size - 1) / 2)
      in map (\<lambda>point. point # concat (point_neighbors_levels m point levels)) [0..<n_points])"

text \<open>\<^verbatim>\<open>arr[neighbours]\<close>: indexing an array with a list of indices.\<close>

definition take_idx :: "'a list \<Rightarrow> nat list \<Rightarrow> error + 'a list" where
  "take_idx xs idx =
     (if list_all (\<lambda>i. i < length xs) idx then Inr (map (\<lambda>i. xs ! i) idx) else Inl IndexError)"

text \<open>The body of the loop over the points of a mesh.\<close>

definition point_gradients ::
  "lstsq \<Rightarrow> int \<Rightarrow> mesh \<Rightarrow> nat list list \<Rightarrow> nat \<Rightarrow> error + (fl \<times> fl \<times> fl \<times> fl)" where
  "point_gradients lstsq window_size m points_list point =
     (if length points_list \<le> point then Inl IndexError
      else let neighbours = points_list ! point in
        bindE (take_idx (points m) neighbours) (\<lambda>pdata.
        bindE (getitem m ''disp_x'') (\<lambda>ux.
        bindE (take_idx ux neighbours) (\<lambda>u.
        bindE (getitem m ''disp_y'') (\<lambda>vy.
        bindE (take_idx vy neighbours) (\<lambda>v.
        bindE (evaluate_point_dev_n lstsq window_size pdata u) (\<lambda>(dudx, dudy).
        bindE (evaluate_point_dev_n lstsq window_size pdata v) (\<lambda>(dvdx, dvdy).
        Inr (dudx, dudy, dvdx, dvdy)))))))))"

fun all_points :: "(nat \<Rightarrow> error + 'a) \<Rightarrow> nat list \<Rightarrow> error + 'a list" where
  "all_points f [] = Inr []"
| "all_points f (p # ps) =
     (case f p of Inl e \<Rightarrow> Inl e
      | Inr r \<Rightarrow> (case all_points f ps of Inl e \<Rightarrow> Inl e | Inr rs \<Rightarrow> Inr (r # rs)))"

definition differentiate_mesh ::
  "lstsq \<Rightarrow> int \<Rightarrow> mesh \<Rightarrow> nat list list \<Rightarrow> error + (fl list \<times> fl list \<times> fl list)" where
  "differentiate_mesh lstsq window_size m points_list =
     (let n_points = length (points m) in
      bindE (all_points (point_gradients lstsq window_size m points_list) [0..<n_points])
        (\<lambda>g. euler_almansi_n (map fst g) (map (fst \<circ> snd) g)
                (map (fst \<circ> snd \<circ> snd) g) (map (snd \<circ> snd \<circ> snd) g)))"

definition write_strains :: "mesh \<Rightarrow> fl list \<times> fl list \<times> fl list \<Rightarrow> mesh" where
  "write_strains m r =
     (case r of (exx, eyy, exy) \<Rightarrow>
        set_field ''exy'' exy (set_field ''eyy'' eyy (set_field ''exx'' exx m)))"

text \<open>The loop over all snapshots: the first error ends it, what was written stays.\<close>

fun differentiate_all ::
  "lstsq \<Rightarrow> int \<Rightarrow> nat list list \<Rightarrow> mesh list \<Rightarrow> error option \<times> mesh list" where
  "differentiate_all lstsq window_size points_list [] = (None, [])"
| "differentiate_all lstsq window_size points_list (m # rest) =
     (case differentiate_mesh lstsq window_size m points_list of
        Inl e \<Rightarrow> (Some e, m # rest)
      | Inr r \<Rightarrow>
         (case differentiate_all lstsq window_size points_list rest of
            (res, rest') \<Rightarrow> (res, write_strains m r # rest')))"

definition stamp :: "store \<Rightarrow> addr \<Rightarrow> string \<Rightarrow> int \<Rightarrow> store" where
  "stamp st a data_range window_size =
     setitem (setitem (setitem st a ''dic_filter'' (PBool True))
                a ''window_size'' (PInt window_size))
       a ''data_range'' (PStr data_range)"

text \<open>
  The container and its snapshots are changed in place: the result is the error raised,
  if any, with the store and the container as the call leaves them.
\<close>

definition window_differentation ::
  "neighbours_fn \<Rightarrow> lstsq \<Rightarrow> store \<Rightarrow> spatialdata \<Rightarrow> string \<Rightarrow> int
     \<Rightarrow> error option \<times> store \<times> spatialdata" where
  "window_differentation point_neighbors_levels lstsq st spatialdata data_range window_size =
     (case data_sets spatialdata of [] \<Rightarrow> (Some IndexError, st, spatialdata)
      | m0 # _ \<Rightarrow>
         let points_list = get_points_neighbours point_neighbors_levels m0 window_size;
             st' = stamp st (sd_metadata spatialdata) data_range window_size
         in if data_range = ''all'' then
              (case differentiate_all lstsq window_size points_list (data_sets spatialdata) of
                 (res, ms) \<Rightarrow> (res, st', spatialdata\<lparr>data_sets := ms\<rparr>))
            else if data_range = ''last'' then
              (let m = last (data_sets spatialdata) in
               case differentiate_mesh lstsq window_size m points_list of
                 Inl e \<Rightarrow> (Some e, st', spatialdata)
               | Inr r \<Rightarrow>
                  (None, st',
                   spatialdata\<lparr>data_sets := butlast (data_sets spatialdata) @ [write_strains m r]\<rparr>))
            else (None, st', spatialdata))"

section \<open>Example inputs\<close>

text \<open>
  A unit square of four points, a sampler that takes the grid points with \<open>x < 1\<close> as
  inside the mesh (the sampled \<^verbatim>\<open>disp_x\<close> is \<open>x\<close> there and zero outside, as the
  validity mask is), a store whose dicts are empty and a container of the one mesh.
\<close>

definition example_mesh :: mesh where
  "example_mesh =
     \<lparr>points = [(0, 0, 0), (1, 0, 0), (0, 1, 0), (1, 1, 0)],
      point_data = [(''disp_x'', [Fin 0, Fin 1, Fin 0, Fin 1]),
                    (''disp_y'', [Fin 0, Fin 0, Fin 1, Fin 1])],
      bounds = (0, 1, 0, 1, 0, 0)\<rparr>"

definition example_sample :: sampler where
  "example_sample grid m =
     \<lparr>points = grid,
      point_data = [(''disp_x'', map (\<lambda>(x, y, z). if x < 1 then Fin x else Fin 0) grid),
                    (''vtkValidPointMask'', map (\<lambda>(x, y, z). if x < 1 then Fin 1 else Fin 0) grid),
                    (''ObjectId'', map (\<lambda>p. Fin 0) grid)],
      bounds = bounds m\<rparr>"

definition example_store :: store where
  "example_store = (\<lambda>a. Map.empty)"

definition example_sd :: spatialdata where
  "example_sd =
     \<lparr>data_sets = [example_mesh], sd_index = [0], sd_time = [0], sd_load = [0],
      sd_metadata = 0\<rparr>"

text \<open>
  For the window differentiator: a mesh without connectivity (no point has neighbours), a
  mesh of one point with both displacement fields, the same mesh without \<^verbatim>\<open>disp_x\<close>,
  and the one-point mesh after its three strain fields are written. A window of one point
  is short of \<open>5\<^sup>2\<close> samples, so its strains are not-a-number.
\<close>

definition example_neighbours :: neighbours_fn where
  "example_neighbours m p levels = []"

definition example_point_mesh :: mesh where
  "example_point_mesh =
     \<lparr>points = [(0, 0, 0)],
      point_data = [(''disp_x'', [Fin 0]), (''disp_y'', [Fin 0])],
      bounds = (0, 0, 0, 0, 0, 0)\<rparr>"


definition example_written_mesh :: mesh where
  "example_written_mesh =
     \<lparr>points = [(0, 0, 0)],
      point_data = [(''disp_x'', [Fin 0]), (''disp_y'', [Fin 0]),
                    (''exx'', [NaN]), (''eyy'', [NaN]), (''exy'', [NaN])],
      bounds = (0, 0, 0, 0, 0, 0)\<rparr>"

definition example_series :: "mesh list \<Rightarrow> spatialdata" where
  "example_series ms =
     \<lparr>data_sets = ms, sd_index = map int [0..<length ms], sd_time = map real [0..<length ms],
      sd_load = map (\<lambda>i. 0) ms, sd_metadata = 0\<rparr>"

section \<open>Properties of the strain calculator\<close>

lemma bindE_Inr: "bindE (Inr x) f = f x"
  by (simp add: bindE_def)

lemma bindE_Inl: "bindE (Inl e) f = Inl e"
  by (simp add: bindE_def)

lemma exx_arg_same_length:
  assumes "length dudx = n" and "length dudy = n"
  shows "exx_arg dudx dudy = Inr (map2 exx_arg_pt dudx dudy)"
proof -
  have "bc2 fl_add (map (fl_add (Fin 1)) (map (fl_mul (Fin 2)) dudx)) (map fl_pow2 dudx)
          = Inr (map (\<lambda>x. fl_add (fl_add (Fin 1) (fl_mul (Fin 2) x)) (fl_pow2 x)) dudx)"
    by (simp add: bc2_def list_eq_iff_nth_eq)
  moreover have "bc2 fl_add
          (map (\<lambda>x. fl_add (fl_add (Fin 1) (fl_mul (Fin 2) x)) (fl_pow2 x)) dudx)
          (map fl_pow2 dudy) = Inr (map2 exx_arg_pt dudx dudy)"
    using assms by (simp add: bc2_def list_eq_iff_nth_eq exx_arg_pt_def)
  ultimately show ?thesis by (simp only: exx_arg_def bindE_Inr)
qed

lemma eyy_arg_same_length:
  assumes "length dvdx = n" and "length dvdy = n"
  shows "eyy_arg dvdx dvdy = Inr (map2 eyy_arg_pt dvdx dvdy)"
proof -
  have "bc2 fl_add (map (fl_add (Fin 1)) (map (fl_mul (Fin 2)) dvdy)) (map fl_pow2 dvdx)
          = Inr (map2 (\<lambda>x y. fl_add (fl_add (Fin 1) (fl_mul (Fin 2) y)) (fl_pow2 x)) dvdx dvdy)"
    using assms by (simp add: bc2_def list_eq_iff_nth_eq)
  moreover have "bc2 fl_add
          (map2 (\<lambda>x y. fl_add (fl_add (Fin 1) (fl_mul (Fin 2) y)) (fl_pow2 x)) dvdx dvdy)
          (map fl_pow2 dvdy) = Inr (map2 eyy_arg_pt dvdx dvdy)"
    using assms by (simp add: bc2_def list_eq_iff_nth_eq eyy_arg_pt_def)
  ultimately show ?thesis by (simp only: eyy_arg_def bindE_Inr)
qed

lemma euler_almansi_n_same_length:
  assumes "length dudx = n" "length dudy = n" "length dvdx = n" "length dvdy = n"
  shows "euler_almansi_n dudx dudy dvdx dvdy =
           Inr (map2 exx_pt dudx dudy, map2 eyy_pt dvdx dvdy,
                map (\<lambda>i. exy_pt (dudx ! i) (dudy ! i) (dvdx ! i) (dvdy ! i)) [0..<n])"
proof -
  have a: "exx_arg dudx dudy = Inr (map2 exx_arg_pt dudx dudy)"
    using assms by (simp add: exx_arg_same_length)
  have b: "eyy_arg dvdx dvdy = Inr (map2 eyy_arg_pt dvdx dvdy)"
    using assms by (simp add: eyy_arg_same_length)
  have s1: "bc2 fl_mul dvdx (map (fl_add (Fin 1)) dudx)
              = Inr (map (\<lambda>i. fl_mul (dvdx ! i) (fl_add (Fin 1) (dudx ! i))) [0..<n])"
    using assms by (simp add: bc2_def list_eq_iff_nth_eq)
  have s2: "bc2 fl_mul dudy (map (fl_add (Fin 1)) dvdy)
              = Inr (map (\<lambda>i. fl_mul (dudy ! i) (fl_add (Fin 1) (dvdy ! i))) [0..<n])"
    using assms by (simp add: bc2_def list_eq_iff_nth_eq)
  have s3: "bc2 fl_add (map (\<lambda>i. fl_mul (dvdx ! i) (fl_add (Fin 1) (dudx ! i))) [0..<n])
               (map (\<lambda>i. fl_mul (dudy ! i) (fl_add (Fin 1) (dvdy ! i))) [0..<n])
              = Inr (map (\<lambda>i. exy_pt (dudx ! i) (dudy ! i) (dvdx ! i) (dvdy ! i)) [0..<n])"
    by (simp add: bc2_def list_eq_iff_nth_eq exy_pt_def)
  have e1: "map fl_log (map fl_sqrt (map2 exx_arg_pt dudx dudy)) = map2 exx_pt dudx dudy"
    using assms by (simp add: exx_pt_def list_eq_iff_nth_eq)
  have e2: "map fl_log (map fl_sqrt (map2 eyy_arg_pt dvdx dvdy)) = map2 eyy_pt dvdx dvdy"
    using assms by (simp add: eyy_pt_def list_eq_iff_nth_eq)
  show ?thesis
    by (simp only: euler_almansi_n_def a b s1 s2 s3  bindE_Inr Let_def e1 e2)
qed



lemma exx_arg_pt_NaN: "p = NaN \<or> q = NaN \<Longrightarrow> exx_arg_pt p q = NaN"
  by (cases p; cases q) (auto simp: exx_arg_pt_def fl_pow2_def)

lemma eyy_arg_pt_NaN: "p = NaN \<or> q = NaN \<Longrightarrow> eyy_arg_pt p q = NaN"
  by (cases p; cases q) (auto simp: eyy_arg_pt_def fl_pow2_def)

lemma fl_add_NaN: "x = NaN \<or> y = NaN \<Longrightarrow> fl_add x y = NaN"
  by (cases x; cases y) auto

lemma fl_mul_NaN: "x = NaN \<or> y = NaN \<Longrightarrow> fl_mul x y = NaN"
  by (cases x; cases y) auto

lemma exy_pt_NaN:
  "a = NaN \<or> b = NaN \<or> c = NaN \<or> d = NaN \<Longrightarrow> exy_pt a b c d = NaN"
  unfolding exy_pt_def
  by (metis fl_add_NaN fl_mul_NaN)

lemma exy_pt_Fin: "exy_pt (Fin a) (Fin b) (Fin c) (Fin d) = Fin (c * (1 + a) + b * (1 + d))"
  by (simp add: exy_pt_def)

lemma exx_pt_Fin:
  "0 < 1 + 2 * a + a\<^sup>2 + b\<^sup>2 \<Longrightarrow>
     exx_pt (Fin a) (Fin b) = Fin (ln (sqrt (1 + 2 * a + a\<^sup>2 + b\<^sup>2)))"
  by (simp add: exx_pt_def exx_arg_pt_def fl_pow2_def power2_eq_square)

lemma eyy_pt_Fin:
  "0 < 1 + 2 * d + c\<^sup>2 + d\<^sup>2 \<Longrightarrow>
     eyy_pt (Fin c) (Fin d) = Fin (ln (sqrt (1 + 2 * d + c\<^sup>2 + d\<^sup>2)))"
  by (simp add: eyy_pt_def eyy_arg_pt_def fl_pow2_def power2_eq_square)

lemma exx_pt_NaN: "p = NaN \<or> q = NaN \<Longrightarrow> exx_pt p q = NaN"
  by (simp add: exx_pt_def exx_arg_pt_NaN)

lemma eyy_pt_NaN: "p = NaN \<or> q = NaN \<Longrightarrow> eyy_pt p q = NaN"
  by (simp add: eyy_pt_def eyy_arg_pt_NaN)

text \<open>
  Claim C8, as stated, fails: a not-a-number among the inputs does not make every output
  not-a-number. With \<^verbatim>\<open>dvdx\<close> not-a-number and the other gradients zero, \<^verbatim>\<open>exx\<close>
  is zero, since it reads \<^verbatim>\<open>dudx\<close> and \<^verbatim>\<open>dudy\<close> only.
\<close>

theorem euler_almansi_n_counterexample:
  "euler_almansi_n [Fin 0] [Fin 0] [NaN] [Fin 0] = Inr ([Fin 0], [NaN], [NaN])"
  by (simp add: euler_almansi_n_def exx_arg_def eyy_arg_def bc2_def bindE_def fl_pow2_def)

text \<open>
  Claim C8, amended: on four arrays of one length the strain calculator returns three
  arrays of that length, computed point by point as
  \<^verbatim>\<open>exx = ln(sqrt(1 + 2*dudx + dudx^2 + dudy^2))\<close>,
  \<^verbatim>\<open>eyy = ln(sqrt(1 + 2*dvdy + dvdx^2 + dvdy^2))\<close> and
  \<^verbatim>\<open>exy = dvdx*(1+dudx) + dudy*(1+dvdy)\<close>. A not-a-number in \<^verbatim>\<open>dudx\<close> or
  \<^verbatim>\<open>dudy\<close> makes \<^verbatim>\<open>exx\<close> not-a-number, one in \<^verbatim>\<open>dvdx\<close> or \<^verbatim>\<open>dvdy\<close> makes
  \<^verbatim>\<open>eyy\<close> not-a-number, and one in any of the four makes \<^verbatim>\<open>exy\<close> not-a-number.
\<close>

theorem euler_almansi_n_pointwise:
  assumes "length dudx = n" and "length dudy = n" and "length dvdx = n" and "length dvdy = n"
  shows "\<exists>exx eyy exy.
           euler_almansi_n dudx dudy dvdx dvdy = Inr (exx, eyy, exy)
         \<and> length exx = n \<and> length eyy = n \<and> length exy = n
         \<and> (\<forall>i<n.
              exx ! i = fl_log (fl_sqrt (fl_add (fl_add (fl_add (Fin 1)
                          (fl_mul (Fin 2) (dudx ! i))) (fl_pow2 (dudx ! i))) (fl_pow2 (dudy ! i))))
            \<and> eyy ! i = fl_log (fl_sqrt (fl_add (fl_add (fl_add (Fin 1)
                          (fl_mul (Fin 2) (dvdy ! i))) (fl_pow2 (dvdx ! i))) (fl_pow2 (dvdy ! i))))
            \<and> exy ! i = fl_add (fl_mul (dvdx ! i) (fl_add (Fin 1) (dudx ! i)))
                          (fl_mul (dudy ! i) (fl_add (Fin 1) (dvdy ! i)))
            \<and> (\<forall>a b. dudx ! i = Fin a \<and> dudy ! i = Fin b \<and> 0 < 1 + 2 * a + a\<^sup>2 + b\<^sup>2 \<longrightarrow>
                   exx ! i = Fin (ln (sqrt (1 + 2 * a + a\<^sup>2 + b\<^sup>2))))
            \<and> (\<forall>c d. dvdx ! i = Fin c \<and> dvdy ! i = Fin d \<and> 0 < 1 + 2 * d + c\<^sup>2 + d\<^sup>2 \<longrightarrow>
                   eyy ! i = Fin (ln (sqrt (1 + 2 * d + c\<^sup>2 + d\<^sup>2))))
            \<and> (\<forall>a b c d. dudx ! i = Fin a \<and> dudy ! i = Fin b \<and> dvdx ! i = Fin c \<and> dvdy ! i = Fin d \<longrightarrow>
                   exy ! i = Fin (c * (1 + a) + b * (1 + d)))
            \<and> (dudx ! i = NaN \<or> dudy ! i = NaN \<longrightarrow> exx ! i = NaN)
            \<and> (dvdx ! i = NaN \<or> dvdy ! i = NaN \<longrightarrow> eyy ! i = NaN)
            \<and> (dudx ! i = NaN \<or> dudy ! i = NaN \<or> dvdx ! i = NaN \<or> dvdy ! i = NaN \<longrightarrow>
                   exy ! i = NaN))"
proof -
  let ?exx = "map2 exx_pt dudx dudy"
  let ?eyy = "map2 eyy_pt dvdx dvdy"
  let ?exy = "map (\<lambda>i. exy_pt (dudx ! i) (dudy ! i) (dvdx ! i) (dvdy ! i)) [0..<n]"
  have run: "euler_almansi_n dudx dudy dvdx dvdy = Inr (?exx, ?eyy, ?exy)"
    using assms by (rule euler_almansi_n_same_length)
  have len: "length ?exx = n" "length ?eyy = n" "length ?exy = n"
    using assms by simp_all
  have pt: "?exx ! i = exx_pt (dudx ! i) (dudy ! i)" "?eyy ! i = eyy_pt (dvdx ! i) (dvdy ! i)"
      "?exy ! i = exy_pt (dudx ! i) (dudy ! i) (dvdx ! i) (dvdy ! i)" if "i < n" for i
    using that assms by simp_all
  have body: "?exx ! i = fl_log (fl_sqrt (fl_add (fl_add (fl_add (Fin 1)
                          (fl_mul (Fin 2) (dudx ! i))) (fl_pow2 (dudx ! i))) (fl_pow2 (dudy ! i))))
            \<and> ?eyy ! i = fl_log (fl_sqrt (fl_add (fl_add (fl_add (Fin 1)
                          (fl_mul (Fin 2) (dvdy ! i))) (fl_pow2 (dvdx ! i))) (fl_pow2 (dvdy ! i))))
            \<and> ?exy ! i = fl_add (fl_mul (dvdx ! i) (fl_add (Fin 1) (dudx ! i)))
                          (fl_mul (dudy ! i) (fl_add (Fin 1) (dvdy ! i)))
            \<and> (\<forall>a b. dudx ! i = Fin a \<and> dudy ! i = Fin b \<and> 0 < 1 + 2 * a + a\<^sup>2 + b\<^sup>2 \<longrightarrow>
                   ?exx ! i = Fin (ln (sqrt (1 + 2 * a + a\<^sup>2 + b\<^sup>2))))
            \<and> (\<forall>c d. dvdx ! i = Fin c \<and> dvdy ! i = Fin d \<and> 0 < 1 + 2 * d + c\<^sup>2 + d\<^sup>2 \<longrightarrow>
                   ?eyy ! i = Fin (ln (sqrt (1 + 2 * d + c\<^sup>2 + d\<^sup>2))))
            \<and> (\<forall>a b c d. dudx ! i = Fin a \<and> dudy ! i = Fin b \<and> dvdx ! i = Fin c \<and> dvdy ! i = Fin d \<longrightarrow>
                   ?exy ! i = Fin (c * (1 + a) + b * (1 + d)))
            \<and> (dudx ! i = NaN \<or> dudy ! i = NaN \<longrightarrow> ?exx ! i = NaN)
            \<and> (dvdx ! i = NaN \<or> dvdy ! i = NaN \<longrightarrow> ?eyy ! i = NaN)
            \<and> (dudx ! i = NaN \<or> dudy ! i = NaN \<or> dvdx ! i = NaN \<or> dvdy ! i = NaN \<longrightarrow>
                   ?exy ! i = NaN)" if i: "i < n" for i
  proof (intro conjI allI impI)
    show "?exx ! i = fl_log (fl_sqrt (fl_add (fl_add (fl_add (Fin 1)
            (fl_mul (Fin 2) (dudx ! i))) (fl_pow2 (dudx ! i))) (fl_pow2 (dudy ! i))))"
      by (subst pt(1) [OF i]) (simp only: exx_pt_def exx_arg_pt_def)
    show "?eyy ! i = fl_log (fl_sqrt (fl_add (fl_add (fl_add (Fin 1)
            (fl_mul (Fin 2) (dvdy ! i))) (fl_pow2 (dvdx ! i))) (fl_pow2 (dvdy ! i))))"
      by (subst pt(2) [OF i]) (simp only: eyy_pt_def eyy_arg_pt_def)
    show "?exy ! i = fl_add (fl_mul (dvdx ! i) (fl_add (Fin 1) (dudx ! i)))
                          (fl_mul (dudy ! i) (fl_add (Fin 1) (dvdy ! i)))"
      by (subst pt(3) [OF i]) (simp only: exy_pt_def)
  next
    fix a b assume "dudx ! i = Fin a \<and> dudy ! i = Fin b \<and> 0 < 1 + 2 * a + a\<^sup>2 + b\<^sup>2"
    then show "?exx ! i = Fin (ln (sqrt (1 + 2 * a + a\<^sup>2 + b\<^sup>2)))"
      by (simp only: pt [OF i] exx_pt_Fin)
  next
    fix c d assume "dvdx ! i = Fin c \<and> dvdy ! i = Fin d \<and> 0 < 1 + 2 * d + c\<^sup>2 + d\<^sup>2"
    then show "?eyy ! i = Fin (ln (sqrt (1 + 2 * d + c\<^sup>2 + d\<^sup>2)))"
      by (simp only: pt [OF i] eyy_pt_Fin)
  next
    fix a b c d
    assume "dudx ! i = Fin a \<and> dudy ! i = Fin b \<and> dvdx ! i = Fin c \<and> dvdy ! i = Fin d"
    then show "?exy ! i = Fin (c * (1 + a) + b * (1 + d))"
      by (simp only: pt [OF i] exy_pt_Fin)
  next
    assume "dudx ! i = NaN \<or> dudy ! i = NaN"
    then show "?exx ! i = NaN" by (simp only: pt [OF i] exx_pt_NaN)
  next
    assume "dvdx ! i = NaN \<or> dvdy ! i = NaN"
    then show "?eyy ! i = NaN" by (simp only: pt [OF i] eyy_pt_NaN)
  next
    assume "dudx ! i = NaN \<or> dudy ! i = NaN \<or> dvdx ! i = NaN \<or> dvdy ! i = NaN"
    then show "?exy ! i = NaN" by (simp only: pt [OF i] exy_pt_NaN)
  qed
  show ?thesis
    apply (rule exI [of _ ?exx], rule exI [of _ ?eyy], rule exI [of _ ?exy])
    apply (intro conjI)
        apply (rule run)
       apply (rule len(1))
      apply (rule len(2))
     apply (rule len(3))
    using body by blast
qed

theorem euler_almansi_n_pointwise_witness:
  "\<exists>exx eyy exy. euler_almansi_n [Fin 0] [NaN] [Fin 0] [Fin 0] = Inr (exx, eyy, exy)
     \<and> exx ! 0 = NaN \<and> eyy ! 0 = Fin (ln (sqrt (1 + 2 * 0 + 0\<^sup>2 + 0\<^sup>2))) \<and> exy ! 0 = NaN"
  using euler_almansi_n_pointwise [of "[Fin 0]" 1 "[NaN]" "[Fin 0]" "[Fin 0]"]
  by force

text \<open>
  Claim C9: at a point where the four displacement gradients are zero, the three strains
  are zero: the argument of each square root is one, its root is one and its logarithm
  is zero.
\<close>

theorem euler_almansi_n_zero:
  assumes "length dudx = n" and "length dudy = n" and "length dvdx = n" and "length dvdy = n"
    and "i < n"
    and "dudx ! i = Fin 0" and "dudy ! i = Fin 0" and "dvdx ! i = Fin 0" and "dvdy ! i = Fin 0"
  shows "\<exists>exx eyy exy. euler_almansi_n dudx dudy dvdx dvdy = Inr (exx, eyy, exy)
           \<and> exx ! i = Fin 0 \<and> eyy ! i = Fin 0 \<and> exy ! i = Fin 0"
proof -
  have run: "euler_almansi_n dudx dudy dvdx dvdy =
           Inr (map2 exx_pt dudx dudy, map2 eyy_pt dvdx dvdy,
                map (\<lambda>i. exy_pt (dudx ! i) (dudy ! i) (dvdx ! i) (dvdy ! i)) [0..<n])"
    using assms(1-4) by (rule euler_almansi_n_same_length)
  have arg: "exx_arg_pt (Fin 0) (Fin 0) = Fin 1" "eyy_arg_pt (Fin 0) (Fin 0) = Fin 1"
    by (simp_all add: exx_arg_pt_def eyy_arg_pt_def fl_pow2_def)
  have "exx_pt (Fin 0) (Fin 0) = Fin 0" "eyy_pt (Fin 0) (Fin 0) = Fin 0"
       "exy_pt (Fin 0) (Fin 0) (Fin 0) (Fin 0) = Fin 0"
    by (simp_all add: exx_pt_def eyy_pt_def exy_pt_def arg)
  then show ?thesis
    using assms by (simp add: run)
qed

theorem euler_almansi_n_zero_witness:
  "\<exists>exx eyy exy. euler_almansi_n [Fin 0, Fin 1] [Fin 0, Fin 2] [Fin 0, NaN] [Fin 0, Fin 3]
        = Inr (exx, eyy, exy) \<and> exx ! 0 = Fin 0 \<and> eyy ! 0 = Fin 0 \<and> exy ! 0 = Fin 0"
  using euler_almansi_n_zero [of "[Fin 0, Fin 1]" 2 "[Fin 0, Fin 2]" "[Fin 0, NaN]"
      "[Fin 0, Fin 3]" 0]
  by simp



section \<open>Properties of the gradient estimator\<close>

lemma py_round_of_int: "py_round (of_int j) = j"
  by (simp add: py_round_def)

lemma py_round_half_even:
  assumes "even j"
  shows "py_round (of_int j + 1 / 2) = j"
proof -
  have f: "\<lfloor>(of_int j :: real) + 1 / 2\<rfloor> = j"
    by linarith
  show ?thesis
    using assms by (simp add: py_round_def f Let_def)
qed

lemma py_round_half_square: "py_round (real_of_int (w ^ 2) / 2) = w ^ 2 div 2"
proof (cases "even w")
  case True
  then obtain m where m: "w = 2 * m" by (auto elim: evenE)
  have "real_of_int (w ^ 2) / 2 = of_int (2 * m ^ 2)"
    by (simp add: m power2_eq_square)
  moreover have "w ^ 2 div 2 = 2 * m ^ 2"
    by (simp add: m power2_eq_square)
  ultimately show ?thesis by (simp only: py_round_of_int)
next
  case False
  then obtain m where m: "w = 2 * m + 1" by (auto elim: oddE)
  have "real_of_int (w ^ 2) / 2 = of_int (2 * (m ^ 2 + m)) + 1 / 2"
    by (simp add: m power2_eq_square algebra_simps)
  moreover have "w ^ 2 div 2 = 2 * (m ^ 2 + m)"
    by (simp add: m power2_eq_square algebra_simps)
  moreover have "even (2 * (m ^ 2 + m))" by simp
  ultimately show ?thesis by (simp only: py_round_half_even)
qed

lemma py_round_half_square':
  "py_round ((real_of_int w)\<^sup>2 / 2) = w ^ 2 div 2"
  using py_round_half_square [of w] by simp

lemma L_Q4_n_rows:
  "L_Q4_n (map fst pts, map (fst \<circ> snd) pts)
     = map (\<lambda>(x, y, z). [1, x, y, x * y]) pts"
  by (induction pts) (auto simp: L_Q4_n_def)

text \<open>
  Claim C5: on a window with fewer than \<^verbatim>\<open>window_size**2\<close> samples the gradient estimator
  returns not-a-number for both derivatives and raises nothing: the solver is not called.
\<close>

theorem evaluate_point_dev_n_insufficient:
  "int (length data) < window_size ^ 2 \<Longrightarrow>
     evaluate_point_dev_n lstsq window_size pts data = Inr (NaN, NaN)"
  by (simp add: evaluate_point_dev_n_def Let_def)

theorem evaluate_point_dev_n_insufficient_witness:
  "int (length [Fin 1, Fin 2, Fin 3]) < 5 ^ 2 \<and>
   evaluate_point_dev_n lstsq_xy 5 [(0, 0, 0), (1, 0, 0), (0, 1, 0)] [Fin 1, Fin 2, Fin 3]
     = Inr (NaN, NaN)"
  using evaluate_point_dev_n_insufficient [of "[Fin 1, Fin 2, Fin 3]" 5 lstsq_xy
      "[(0, 0, 0), (1, 0, 0), (0, 1, 0)]"]
  by simp

text \<open>
  The window of the next example holds exact samples of \<open>x * y\<close>, so the coefficients
  \<open>(0, 0, 0, 1)\<close> fit it with no residual.
\<close>

lemma lstsq_xy_fits_window:
  "map (\<lambda>(x, y, z). Fin (0 + 0 * x + 0 * y + 1 * (x * y)))
       [(1, 1, 0), (0, 0, 0), (1, 0, 0), (2, 0, 0), (0, 1, 0),
        (2, 1, 0), (0, 2, 0), (1, 2, 0), (2, 2, 0), (3, 3, 0 :: real)]
     = [Fin 1, Fin 0, Fin 0, Fin 0, Fin 0, Fin 2, Fin 0, Fin 2, Fin 4, Fin 9]"
  by simp

text \<open>
  Claim C3, as stated, fails: the derivatives are not taken at the point of index
  \<^verbatim>\<open>round(N/2)\<close>. With \<^verbatim>\<open>window_size = 3\<close> and a window of \<open>N = 10\<close> points the code
  reads the point of index 4, \<^verbatim>\<open>round(N/2)\<close> is 5, and the two points give different
  derivatives.
\<close>

theorem evaluate_point_dev_n_counterexample:
  "(3::int) ^ 2 \<le> int (length [Fin 1, Fin 0, Fin 0, Fin 0, Fin 0, Fin 2, Fin 0, Fin 2, Fin 4, Fin 9])
   \<and> evaluate_point_dev_n lstsq_xy 3
       [(1, 1, 0), (0, 0, 0), (1, 0, 0), (2, 0, 0), (0, 1, 0),
        (2, 1, 0), (0, 2, 0), (1, 2, 0), (2, 2, 0), (3, 3, 0)]
       [Fin 1, Fin 0, Fin 0, Fin 0, Fin 0, Fin 2, Fin 0, Fin 2, Fin 4, Fin 9]
     = Inr (Fin 1, Fin 0)
   \<and> spec_evaluate_point_dev lstsq_xy
       [(1, 1, 0), (0, 0, 0), (1, 0, 0), (2, 0, 0), (0, 1, 0),
        (2, 1, 0), (0, 2, 0), (1, 2, 0), (2, 2, 0), (3, 3, 0)]
       [Fin 1, Fin 0, Fin 0, Fin 0, Fin 0, Fin 2, Fin 0, Fin 2, Fin 4, Fin 9]
     = Inr (Fin 1, Fin 2)"
  by (simp add: evaluate_point_dev_n_def spec_evaluate_point_dev_def lstsq_xy_def bindE_def
      py_round_def Let_def nth_Cons')

text \<open>
  Claim C3, amended: on a window of \<open>N \<ge> window_size\<^sup>2\<close> points the estimator hands the
  solver the rows \<open>(1, x, y, x * y)\<close> of the bilinear model and the samples, with no
  regularisation, and returns \<open>b + d * y\<close> and \<open>c + d * x\<close> at the window point of index
  \<^verbatim>\<open>round(window_size**2 / 2)\<close>, which is \<open>window_size\<^sup>2 div 2\<close> and lies in the window.
  That index is \<^verbatim>\<open>round(N/2)\<close> when \<open>N = window_size\<^sup>2\<close>.
\<close>

theorem evaluate_point_dev_n_fit:
  assumes "window_size ^ 2 \<le> int (length data)" and "length pts = length data"
    and "data \<noteq> []"
  shows "evaluate_point_dev_n lstsq window_size pts data =
           bindE (lstsq (map (\<lambda>(x, y, z). [1, x, y, x * y]) pts) data) (\<lambda>(a, b, c, d).
             case pts ! nat (window_size ^ 2 div 2) of (xc, yc, zc) \<Rightarrow>
               Inr (fl_add b (fl_mul d (Fin yc)), fl_add c (fl_mul d (Fin xc))))
       \<and> nat (window_size ^ 2 div 2) < length pts
       \<and> py_round (real_of_int (window_size ^ 2) / 2) = window_size ^ 2 div 2
       \<and> (int (length data) = window_size ^ 2 \<longrightarrow>
            evaluate_point_dev_n lstsq window_size pts data
              = spec_evaluate_point_dev lstsq pts data)"
proof -
  let ?k = "window_size ^ 2 div 2"
  have k0: "0 \<le> ?k" by simp
  have "?k < int (length data)"
  proof (cases "window_size ^ 2 = 0")
    case True
    then show ?thesis using assms(3) by simp
  next
    case False
    then have "0 < window_size ^ 2" by simp
    then have "?k < window_size ^ 2" by linarith
    then show ?thesis using assms(1) by linarith
  qed
  then have kN: "?k < int (length pts)" using assms(2) by simp
  then have kn: "nat ?k < length pts" using k0 by linarith
  have nth: "(map fst pts ! nat ?k, map (fst \<circ> snd) pts ! nat ?k)
               = (fst (pts ! nat ?k), fst (snd (pts ! nat ?k)))"
    using kn by simp
  have main: "evaluate_point_dev_n lstsq window_size pts data =
           bindE (lstsq (map (\<lambda>(x, y, z). [1, x, y, x * y]) pts) data) (\<lambda>(a, b, c, d).
             case pts ! nat ?k of (xc, yc, zc) \<Rightarrow>
               Inr (fl_add b (fl_mul d (Fin yc)), fl_add c (fl_mul d (Fin xc))))"
    using assms(1) kN k0 kn
    by (auto simp add: evaluate_point_dev_n_def Let_def L_Q4_n_rows py_round_half_square'
          bindE_def split_def split: sum.splits prod.splits)
  have spec: "evaluate_point_dev_n lstsq window_size pts data
              = spec_evaluate_point_dev lstsq pts data"
    if "int (length data) = window_size ^ 2"
  proof -
    have "real (length data) = real_of_int (window_size ^ 2)"
      using that by (metis of_int_of_nat_eq)
    then have "py_round (real (length data) / 2) = ?k"
      by (simp only: py_round_half_square)
    then show ?thesis
      unfolding main using kN k0 by (simp add: spec_evaluate_point_dev_def)
  qed
  show ?thesis using main kn spec py_round_half_square [of window_size] by blast
qed

theorem evaluate_point_dev_n_fit_witness:
  "evaluate_point_dev_n lstsq_xy 3
       [(1, 1, 0), (0, 0, 0), (1, 0, 0), (2, 0, 0), (0, 1, 0),
        (2, 1, 0), (0, 2, 0), (1, 2, 0), (2, 2, 0)]
       [Fin 1, Fin 0, Fin 0, Fin 0, Fin 0, Fin 2, Fin 0, Fin 2, Fin 4]
     = Inr (Fin 1, Fin 0)
   \<and> spec_evaluate_point_dev lstsq_xy
       [(1, 1, 0), (0, 0, 0), (1, 0, 0), (2, 0, 0), (0, 1, 0),
        (2, 1, 0), (0, 2, 0), (1, 2, 0), (2, 2, 0)]
       [Fin 1, Fin 0, Fin 0, Fin 0, Fin 0, Fin 2, Fin 0, Fin 2, Fin 4]
     = Inr (Fin 1, Fin 0)"
  using evaluate_point_dev_n_fit [of 3 "[Fin 1, Fin 0, Fin 0, Fin 0, Fin 0, Fin 2, Fin 0, Fin 2, Fin 4]"
       "[(1, 1, 0), (0, 0, 0), (1, 0, 0), (2, 0, 0), (0, 1, 0),
        (2, 1, 0), (0, 2, 0), (1, 2, 0), (2, 2, 0)]" lstsq_xy]
  by (simp add: lstsq_xy_def bindE_def nth_Cons' spec_evaluate_point_dev_def py_round_def Let_def)

section \<open>Properties of the grid interpolator\<close>

lemma length_nan_where_invalid:
  "length vals = length valid \<Longrightarrow> length (nan_where_invalid vals valid) = length valid"
  by (simp add: nan_where_invalid_def)

lemma nth_nan_where_invalid:
  "length vals = length valid \<Longrightarrow> i < length valid \<Longrightarrow>
     nan_where_invalid vals valid ! i = (if valid ! i = Fin 0 then NaN else vals ! i)"
  by (simp add: nan_where_invalid_def)

lemma nan_where_invalid_idem:
  "length vals = length valid \<Longrightarrow>
     nan_where_invalid (nan_where_invalid vals valid) valid = nan_where_invalid vals valid"
  by (simp add: nan_where_invalid_def list_eq_iff_nth_eq)

lemma map_of_set_field:
  "map_of (point_data (set_field name arr m)) = (map_of (point_data m))(name \<mapsto> arr)"
  by (simp add: set_field_def update_conv')

lemma getitem_Some:
  "map_of (point_data m) name = Some arr \<Longrightarrow> getitem m name = Inr arr"
  by (simp add: getitem_def)

lemma mask_name_excluded: "''vtkValidPointMask'' \<in> set excluded_fields"
  by (simp add: excluded_fields_def)

lemma mask_fields_lookup:
  assumes "map_of (point_data r) ''vtkValidPointMask'' = Some valid"
    and "\<forall>k arr. map_of (point_data r) k = Some arr \<longrightarrow> length arr = length valid"
    and "set ns \<subseteq> dom (map_of (point_data r))"
  shows "\<exists>r'. mask_fields ns r = Inr r' \<and> points r' = points r \<and> bounds r' = bounds r
           \<and> (\<forall>k. map_of (point_data r') k =
                 (if k \<in> set ns \<and> k \<notin> set excluded_fields
                  then map_option (\<lambda>v. nan_where_invalid v valid) (map_of (point_data r) k)
                  else map_of (point_data r) k))"
  using assms
proof (induction ns arbitrary: r)
  case Nil
  then show ?case by simp
next
  case (Cons f rest)
  show ?case
  proof (cases "f \<in> set excluded_fields")
    case True
    from Cons.prems have "set rest \<subseteq> dom (map_of (point_data r))" by simp
    from Cons.IH [OF Cons.prems(1) Cons.prems(2) this]
    obtain r' where r': "mask_fields rest r = Inr r'" "points r' = points r"
        "bounds r' = bounds r"
        "\<forall>k. map_of (point_data r') k =
                 (if k \<in> set rest \<and> k \<notin> set excluded_fields
                  then map_option (\<lambda>v. nan_where_invalid v valid) (map_of (point_data r) k)
                  else map_of (point_data r) k)"
      by blast
    have "mask_fields (f # rest) r = Inr r'" using True r'(1) by simp
    moreover have "\<forall>k. map_of (point_data r') k =
                 (if k \<in> set (f # rest) \<and> k \<notin> set excluded_fields
                  then map_option (\<lambda>v. nan_where_invalid v valid) (map_of (point_data r) k)
                  else map_of (point_data r) k)"
      using r'(4) True by auto
    ultimately show ?thesis using r'(2,3) by blast
  next
    case False
    from Cons.prems(3) obtain vals where vals: "map_of (point_data r) f = Some vals"
      by auto
    then have len: "length vals = length valid" using Cons.prems(2) by blast
    let ?r1 = "set_field f (nan_where_invalid vals valid) r"
    have fne: "f \<noteq> ''vtkValidPointMask''" using False mask_name_excluded by auto
    have step: "mask_fields (f # rest) r = mask_fields rest ?r1"
      using False vals Cons.prems(1) len
      by (simp add: getitem_def mask_field_def)
    have p1: "map_of (point_data ?r1) ''vtkValidPointMask'' = Some valid"
      using Cons.prems(1) fne by (simp add: map_of_set_field)
    have p2: "\<forall>k arr. map_of (point_data ?r1) k = Some arr \<longrightarrow> length arr = length valid"
      using Cons.prems(2) len by (auto simp: map_of_set_field length_nan_where_invalid)
    have p3: "set rest \<subseteq> dom (map_of (point_data ?r1))"
      using Cons.prems(3) by (auto simp: map_of_set_field)
    from Cons.IH [OF p1 p2 p3]
    obtain r' where r': "mask_fields rest ?r1 = Inr r'" "points r' = points ?r1"
        "bounds r' = bounds ?r1"
        "\<forall>k. map_of (point_data r') k =
                 (if k \<in> set rest \<and> k \<notin> set excluded_fields
                  then map_option (\<lambda>v. nan_where_invalid v valid) (map_of (point_data ?r1) k)
                  else map_of (point_data ?r1) k)"
      by blast
    have "\<forall>k. map_of (point_data r') k =
                 (if k \<in> set (f # rest) \<and> k \<notin> set excluded_fields
                  then map_option (\<lambda>v. nan_where_invalid v valid) (map_of (point_data r) k)
                  else map_of (point_data r) k)"
    proof
      fix k
      show "map_of (point_data r') k =
                 (if k \<in> set (f # rest) \<and> k \<notin> set excluded_fields
                  then map_option (\<lambda>v. nan_where_invalid v valid) (map_of (point_data r) k)
                  else map_of (point_data r) k)"
      proof (cases "k = f")
        case True
        then show ?thesis
          using r'(4) False vals len
          by (simp add: map_of_set_field nan_where_invalid_idem)
      next
        case False
        then show ?thesis
          using r'(4) by (simp add: map_of_set_field)
      qed
    qed
    moreover have "points r' = points r" "bounds r' = bounds r"
      using r'(2,3) by (simp_all add: set_field_def)
    ultimately show ?thesis using step r'(1) by auto
  qed
qed


lemma wf_result_lookup:
  assumes "wf_result r"
  obtains valid where "map_of (point_data r) ''vtkValidPointMask'' = Some valid"
    and "\<forall>k arr. map_of (point_data r) k = Some arr \<longrightarrow> length arr = length valid"
proof -
  from assms obtain valid where v: "map_of (point_data r) ''vtkValidPointMask'' = Some valid"
    and all: "list_all (\<lambda>(name, arr). length arr = length valid) (point_data r)"
    by (auto simp: wf_result_def split: option.splits)
  have "\<forall>k arr. map_of (point_data r) k = Some arr \<longrightarrow> length arr = length valid"
  proof (intro allI impI)
    fix k arr assume "map_of (point_data r) k = Some arr"
    then have "(k, arr) \<in> set (point_data r)" by (rule map_of_SomeD)
    with all show "length arr = length valid" by (auto simp: list_all_iff)
  qed
  with v that show thesis by blast
qed

lemma sample_and_mask_wf:
  assumes "wf_result (sample grid m)"
    and "map_of (point_data (sample grid m)) ''vtkValidPointMask'' = Some valid"
  shows "\<exists>r'. sample_and_mask sample grid m = Inr r'
           \<and> points r' = points (sample grid m) \<and> bounds r' = bounds (sample grid m)
           \<and> (\<forall>k. map_of (point_data r') k =
                 (if k \<notin> set excluded_fields
                  then map_option (\<lambda>v. nan_where_invalid v valid)
                         (map_of (point_data (sample grid m)) k)
                  else map_of (point_data (sample grid m)) k))"
proof -
  define r where "r = sample grid m"
  define names where "names = map fst (point_data r)"
  have mask: "map_of (point_data r) ''vtkValidPointMask'' = Some valid"
    using assms(2) by (simp only: r_def)
  have "wf_result r" using assms(1) by (simp only: r_def)
  then obtain valid' where
    v': "map_of (point_data r) ''vtkValidPointMask'' = Some valid'"
    and l': "\<forall>k arr. map_of (point_data r) k = Some arr \<longrightarrow> length arr = length valid'"
    by (rule wf_result_lookup)
  have "valid' = valid" using v' mask by simp
  then have lens:
    "\<forall>k arr. map_of (point_data r) k = Some arr \<longrightarrow> length arr = length valid"
    using l' by (simp only:)
  have dom: "set names \<subseteq> dom (map_of (point_data r))"
    unfolding names_def by (simp add: dom_map_of_conv_image_fst)
  have "\<exists>r'. mask_fields names r = Inr r' \<and> points r' = points r \<and> bounds r' = bounds r
           \<and> (\<forall>k. map_of (point_data r') k =
                 (if k \<in> set names \<and> k \<notin> set excluded_fields
                  then map_option (\<lambda>v. nan_where_invalid v valid) (map_of (point_data r) k)
                  else map_of (point_data r) k))"
    using mask lens dom by (rule mask_fields_lookup)
  then obtain r' where all: "mask_fields names r = Inr r' \<and> points r' = points r
           \<and> bounds r' = bounds r
           \<and> (\<forall>k. map_of (point_data r') k =
                 (if k \<in> set names \<and> k \<notin> set excluded_fields
                  then map_option (\<lambda>v. nan_where_invalid v valid) (map_of (point_data r) k)
                  else map_of (point_data r) k))" ..
  have run: "sample_and_mask sample grid m = Inr r'"
    using all by (simp add: sample_and_mask_def Let_def r_def names_def)
  have look: "map_of (point_data r') k =
                 (if k \<notin> set excluded_fields
                  then map_option (\<lambda>v. nan_where_invalid v valid) (map_of (point_data r) k)
                  else map_of (point_data r) k)" for k
  proof (cases "k \<in> set names")
    case True
    then show ?thesis using all by simp
  next
    case False
    then have "map_of (point_data r) k = None"
      unfolding names_def by (simp add: map_of_eq_None_iff)
    then show ?thesis using all by simp
  qed
  show ?thesis
  proof (intro exI conjI allI)
    show "sample_and_mask sample grid m = Inr r'" by (rule run)
    show "points r' = points (sample grid m)" using all by (simp add: r_def)
    show "bounds r' = bounds (sample grid m)" using all by (simp add: r_def)
    show "map_of (point_data r') k =
                 (if k \<notin> set excluded_fields
                  then map_option (\<lambda>v. nan_where_invalid v valid)
                         (map_of (point_data (sample grid m)) k)
                  else map_of (point_data (sample grid m)) k)" for k
      using look [of k] by (simp only: r_def)
  qed
qed

lemma sample_all_results:
  assumes "\<forall>m \<in> set ms. \<exists>r. sample_and_mask sample grid m = Inr r"
  shows "\<exists>rs. sample_all sample grid ms = Inr rs \<and> length rs = length ms
           \<and> (\<forall>j < length ms. sample_and_mask sample grid (ms ! j) = Inr (rs ! j))"
  using assms
proof (induction ms)
  case Nil
  then show ?case by simp
next
  case (Cons m ms)
  then obtain r where r: "sample_and_mask sample grid m = Inr r" by fastforce
  have "\<forall>m \<in> set ms. \<exists>r. sample_and_mask sample grid m = Inr r"
    using Cons.prems by simp
  from Cons.IH [OF this]
  obtain rs where rs: "sample_all sample grid ms = Inr rs" "length rs = length ms"
      "\<forall>j < length ms. sample_and_mask sample grid (ms ! j) = Inr (rs ! j)"
    by blast
  have "sample_all sample grid (m # ms) = Inr (r # rs)"
    using r rs(1) by simp
  moreover have "\<forall>j < length (m # ms). sample_and_mask sample grid ((m # ms) ! j) = Inr ((r # rs) ! j)"
    using r rs(3) by (auto simp: nth_Cons')
  ultimately show ?case using rs(2) by auto
qed

lemma getitem_Inr_iff:
  "getitem m name = Inr arr \<longleftrightarrow> map_of (point_data m) name = Some arr"
  by (simp add: getitem_def split: option.splits)

lemma sample_and_mask_getitem:
  assumes wf: "wf_result (sample grid m)"
    and run: "sample_and_mask sample grid m = Inr r'"
    and vals: "getitem (sample grid m) name = Inr vals"
    and valid: "getitem (sample grid m) ''vtkValidPointMask'' = Inr valid"
  shows "length vals = length valid"
    and "name \<notin> set excluded_fields \<Longrightarrow> getitem r' name = Inr (nan_where_invalid vals valid)"
    and "name \<in> set excluded_fields \<Longrightarrow> getitem r' name = Inr vals"
proof -
  have v: "map_of (point_data (sample grid m)) ''vtkValidPointMask'' = Some valid"
    using valid by (simp only: getitem_Inr_iff)
  have a: "map_of (point_data (sample grid m)) name = Some vals"
    using vals by (simp only: getitem_Inr_iff)
  from wf obtain valid' where
    v': "map_of (point_data (sample grid m)) ''vtkValidPointMask'' = Some valid'"
    and l': "\<forall>k arr. map_of (point_data (sample grid m)) k = Some arr
               \<longrightarrow> length arr = length valid'"
    by (rule wf_result_lookup)
  have "valid' = valid" using v v' by simp
  then show "length vals = length valid" using l' a by blast
  from sample_and_mask_wf [where sample = sample and grid = grid and m = m, OF wf v] obtain r'' where
    all: "sample_and_mask sample grid m = Inr r''
           \<and> points r'' = points (sample grid m) \<and> bounds r'' = bounds (sample grid m)
           \<and> (\<forall>k. map_of (point_data r'') k =
                 (if k \<notin> set excluded_fields
                  then map_option (\<lambda>v. nan_where_invalid v valid)
                         (map_of (point_data (sample grid m)) k)
                  else map_of (point_data (sample grid m)) k))" ..
  then have "r'' = r'" using run by simp
  then have look: "map_of (point_data r') name =
                 (if name \<notin> set excluded_fields
                  then map_option (\<lambda>v. nan_where_invalid v valid)
                         (map_of (point_data (sample grid m)) name)
                  else map_of (point_data (sample grid m)) name)"
    using all by blast
  show "getitem r' name = Inr (nan_where_invalid vals valid)" if "name \<notin> set excluded_fields"
    using that look a by (simp add: getitem_Inr_iff)
  show "getitem r' name = Inr vals" if "name \<in> set excluded_fields"
    using that look a by (simp add: getitem_Inr_iff)
qed

lemma sample_and_mask_succeeds:
  assumes "wf_result (sample grid m)"
  shows "\<exists>r'. sample_and_mask sample grid m = Inr r'"
proof -
  from assms obtain valid where
    v: "map_of (point_data (sample grid m)) ''vtkValidPointMask'' = Some valid"
    and "\<forall>k arr. map_of (point_data (sample grid m)) k = Some arr
               \<longrightarrow> length arr = length valid"
    by (rule wf_result_lookup)
  from sample_and_mask_wf [where sample = sample and grid = grid and m = m, OF assms v] show ?thesis by blast
qed

lemma interpolate_result:
  assumes "data_sets sd = m0 # ms"
    and "make_grid (bounds m0) spacing = Inr grid"
    and "sample_all sample grid (data_sets sd) = Inr rs"
  shows "interpolate_spatialdata_grid sample st sd spacing =
           (stamp_interpolated st (sd_metadata sd) spacing,
            Inr \<lparr>data_sets = rs, sd_index = sd_index sd, sd_time = sd_time sd,
                 sd_load = sd_load sd, sd_metadata = sd_metadata sd\<rparr>)"
  using assms
  by (simp add: interpolate_spatialdata_grid_def stamp_interpolated_def Let_def bindE_def)

text \<open>
  When every sampling holds a validity mask and arrays as long as the mask, the
  interpolation returns, with the invalid points masked.
\<close>

lemma interpolate_masks_invalid_points:
  assumes "data_sets sd = m0 # ms"
    and "make_grid (bounds m0) spacing = Inr grid"
    and "\<forall>m \<in> set (data_sets sd). wf_result (sample grid m)"
  shows "\<exists>st' out. interpolate_spatialdata_grid sample st sd spacing = (st', Inr out)
        \<and> length (data_sets out) = length (data_sets sd)
        \<and> (\<forall>j < length (data_sets sd). \<forall>name vals valid.
             getitem (sample grid (data_sets sd ! j)) name = Inr vals
           \<and> getitem (sample grid (data_sets sd ! j)) ''vtkValidPointMask'' = Inr valid \<longrightarrow>
               (name \<notin> set excluded_fields \<longrightarrow>
                  (\<exists>vals'. getitem (data_sets out ! j) name = Inr vals'
                     \<and> length vals' = length vals
                     \<and> (\<forall>i < length vals.
                          vals' ! i = (if valid ! i = Fin 0 then NaN else vals ! i))))
             \<and> (name \<in> set excluded_fields \<longrightarrow> getitem (data_sets out ! j) name = Inr vals))"
proof -
  have "\<forall>m \<in> set (data_sets sd). \<exists>r. sample_and_mask sample grid m = Inr r"
    using assms(3) sample_and_mask_succeeds [where sample = sample and grid = grid] by blast
  then have "\<exists>rs. sample_all sample grid (data_sets sd) = Inr rs
           \<and> length rs = length (data_sets sd)
           \<and> (\<forall>j < length (data_sets sd).
                 sample_and_mask sample grid (data_sets sd ! j) = Inr (rs ! j))"
    by (rule sample_all_results)
  then obtain rs where rs: "sample_all sample grid (data_sets sd) = Inr rs"
    and len: "length rs = length (data_sets sd)"
    and each: "\<forall>j < length (data_sets sd).
                 sample_and_mask sample grid (data_sets sd ! j) = Inr (rs ! j)"
    by blast
  let ?out = "\<lparr>data_sets = rs, sd_index = sd_index sd, sd_time = sd_time sd,
                 sd_load = sd_load sd, sd_metadata = sd_metadata sd\<rparr>"
  have run: "interpolate_spatialdata_grid sample st sd spacing =
           (stamp_interpolated st (sd_metadata sd) spacing, Inr ?out)"
    using assms(1,2) rs by (rule interpolate_result)
  have body: "(name \<notin> set excluded_fields \<longrightarrow>
                  (\<exists>vals'. getitem (data_sets ?out ! j) name = Inr vals'
                     \<and> length vals' = length vals
                     \<and> (\<forall>i < length vals.
                          vals' ! i = (if valid ! i = Fin 0 then NaN else vals ! i))))
             \<and> (name \<in> set excluded_fields \<longrightarrow> getitem (data_sets ?out ! j) name = Inr vals)"
    if j: "j < length (data_sets sd)"
      and g: "getitem (sample grid (data_sets sd ! j)) name = Inr vals
           \<and> getitem (sample grid (data_sets sd ! j)) ''vtkValidPointMask'' = Inr valid"
    for j name vals valid
  proof -
    have wf: "wf_result (sample grid (data_sets sd ! j))"
      using assms(3) j by simp
    have r: "sample_and_mask sample grid (data_sets sd ! j) = Inr (rs ! j)"
      using each j by blast
    note facts = sample_and_mask_getitem [where sample = sample and grid = grid
        and m = "data_sets sd ! j", OF wf r conjunct1 [OF g] conjunct2 [OF g]]
    have l: "length vals = length valid" by (rule facts(1))
    have nth: "\<forall>i < length vals.
        nan_where_invalid vals valid ! i = (if valid ! i = Fin 0 then NaN else vals ! i)"
      using l by (simp add: nth_nan_where_invalid)
    have ln: "length (nan_where_invalid vals valid) = length vals"
      using l by (simp add: length_nan_where_invalid)
    show ?thesis
      using facts(2,3) nth ln by auto
  qed
  show ?thesis
    apply (rule exI [of _ "stamp_interpolated st (sd_metadata sd) spacing"])
    apply (rule exI [of _ ?out])
    apply (intro conjI)
      apply (rule run)
     apply (simp add: len)
    using body apply blast
    done
qed

lemma mask_fields_success:
  assumes "mask_fields ns r = Inr r'"
    and "map_of (point_data r) ''vtkValidPointMask'' = Some valid"
  shows "points r' = points r \<and> bounds r' = bounds r
       \<and> (\<forall>k. map_of (point_data r') k =
             (if k \<in> set ns \<and> k \<notin> set excluded_fields
              then map_option (\<lambda>v. nan_where_invalid v valid) (map_of (point_data r) k)
              else map_of (point_data r) k))
       \<and> (\<forall>k vals. k \<in> set ns \<and> k \<notin> set excluded_fields
             \<and> map_of (point_data r) k = Some vals \<longrightarrow> length vals = length valid)"
  using assms
proof (induction ns arbitrary: r)
  case Nil
  then show ?case by simp
next
  case (Cons f rest)
  show ?case
  proof (cases "f \<in> set excluded_fields")
    case True
    then have "mask_fields rest r = Inr r'" using Cons.prems(1) by simp
    from Cons.IH [OF this Cons.prems(2)] True show ?thesis by auto
  next
    case False
    have fne: "f \<noteq> ''vtkValidPointMask''" using False mask_name_excluded by auto
    have g: "getitem r ''vtkValidPointMask'' = Inr valid"
      using Cons.prems(2) by (simp add: getitem_def)
    from Cons.prems(1) False obtain vals where vals: "getitem r f = Inr vals"
      by (cases "getitem r f") simp_all
    then have lk: "map_of (point_data r) f = Some vals"
      by (simp only: getitem_Inr_iff)
    have len: "length vals = length valid"
      using Cons.prems(1) False vals g
      by (simp add: mask_field_def split: if_splits)
    let ?r1 = "set_field f (nan_where_invalid vals valid) r"
    have step: "mask_fields rest ?r1 = Inr r'"
      using Cons.prems(1) False vals g len by (simp add: mask_field_def)
    have p1: "map_of (point_data ?r1) ''vtkValidPointMask'' = Some valid"
      using Cons.prems(2) fne by (simp add: map_of_set_field)
    note ih = Cons.IH [OF step p1]
    have a: "points r' = points r" "bounds r' = bounds r"
      using ih by (simp_all add: set_field_def)
    have look1: "map_of (point_data r') k =
             (if k \<in> set rest \<and> k \<notin> set excluded_fields
              then map_option (\<lambda>v. nan_where_invalid v valid) (map_of (point_data ?r1) k)
              else map_of (point_data ?r1) k)" for k
      using ih by blast
    have b: "map_of (point_data r') k =
             (if k \<in> set (f # rest) \<and> k \<notin> set excluded_fields
              then map_option (\<lambda>v. nan_where_invalid v valid) (map_of (point_data r) k)
              else map_of (point_data r) k)" for k
    proof (cases "k = f")
      case True
      then show ?thesis
        using look1 [of k] False lk len
        by (simp add: map_of_set_field nan_where_invalid_idem)
    next
      case False
      then show ?thesis
        using look1 [of k] by (simp add: map_of_set_field)
    qed
    have len1: "length v = length valid"
      if "k \<in> set rest \<and> k \<notin> set excluded_fields \<and> map_of (point_data ?r1) k = Some v"
      for k v
      using ih that by blast
    have c: "length v = length valid"
      if h: "k \<in> set (f # rest) \<and> k \<notin> set excluded_fields \<and> map_of (point_data r) k = Some v"
      for k v
    proof (cases "k = f")
      case True
      then show ?thesis using h lk len by simp
    next
      case False
      then have "k \<in> set rest \<and> k \<notin> set excluded_fields
                   \<and> map_of (point_data ?r1) k = Some v"
        using h by (simp add: map_of_set_field)
      then show ?thesis by (rule len1)
    qed
    show ?thesis using a b c by blast
  qed
qed

lemma sample_all_success:
  assumes "sample_all sample grid ms = Inr rs"
  shows "length rs = length ms
       \<and> (\<forall>j < length ms. sample_and_mask sample grid (ms ! j) = Inr (rs ! j))"
  using assms
proof (induction ms arbitrary: rs)
  case Nil
  then show ?case by simp
next
  case (Cons m ms)
  from Cons.prems obtain r where r: "sample_and_mask sample grid m = Inr r"
    by (cases "sample_and_mask sample grid m") simp_all
  from Cons.prems r obtain rs' where rs': "sample_all sample grid ms = Inr rs'"
    by (cases "sample_all sample grid ms") simp_all
  have eq: "rs = r # rs'" using Cons.prems r rs' by simp
  from Cons.IH [OF rs'] have ih: "length rs' = length ms"
    "\<forall>j < length ms. sample_and_mask sample grid (ms ! j) = Inr (rs' ! j)"
    by simp_all
  have "sample_and_mask sample grid ((m # ms) ! j) = Inr (rs ! j)"
    if "j < length (m # ms)" for j
    using that r ih(2) eq by (cases j) simp_all
  then show ?case using ih(1) eq by simp
qed

lemma interpolate_success:
  assumes "interpolate_spatialdata_grid sample st sd spacing = (st', Inr out)"
  shows "\<exists>m0 ms grid rs. data_sets sd = m0 # ms
       \<and> make_grid (bounds m0) spacing = Inr grid
       \<and> sample_all sample grid (data_sets sd) = Inr rs
       \<and> st' = stamp_interpolated st (sd_metadata sd) spacing
       \<and> out = \<lparr>data_sets = rs, sd_index = sd_index sd, sd_time = sd_time sd,
                 sd_load = sd_load sd, sd_metadata = sd_metadata sd\<rparr>"
proof (cases "data_sets sd")
  case Nil
  then show ?thesis using assms by (simp add: interpolate_spatialdata_grid_def)
next
  case (Cons m0 ms)
  show ?thesis
  proof (cases "make_grid (bounds m0) spacing")
    case (Inl e)
    then show ?thesis using assms Cons by (simp add: interpolate_spatialdata_grid_def)
  next
    case (Inr grid)
    show ?thesis
    proof (cases "sample_all sample grid (m0 # ms)")
      case (Inl e)
      then show ?thesis
        using assms Cons Inr
        by (simp add: interpolate_spatialdata_grid_def Let_def bindE_def)
    next
      case rs: (Inr rs)
      then show ?thesis
        using assms Cons Inr
        by (auto simp add: interpolate_spatialdata_grid_def Let_def bindE_def
            stamp_interpolated_def)
    qed
  qed
qed

text \<open>
  Claim C7: after an interpolation that returns, in every snapshot of the result every
  sampled field other than \<^verbatim>\<open>ObjectId\<close>, \<^verbatim>\<open>vtkGhostType\<close> and \<^verbatim>\<open>vtkValidPointMask\<close>
  is not-a-number at each grid point whose validity mask is zero and is the sampled value
  at the other points; those three fields are as sampled.
\<close>

theorem interpolate_masks_invalid:
  assumes "interpolate_spatialdata_grid sample st sd spacing = (st', Inr out)"
  shows "\<exists>m0 ms grid. data_sets sd = m0 # ms \<and> make_grid (bounds m0) spacing = Inr grid
        \<and> length (data_sets out) = length (data_sets sd)
        \<and> (\<forall>j < length (data_sets sd). \<forall>name vals valid.
             getitem (sample grid (data_sets sd ! j)) name = Inr vals
           \<and> getitem (sample grid (data_sets sd ! j)) ''vtkValidPointMask'' = Inr valid \<longrightarrow>
               (name \<notin> set excluded_fields \<longrightarrow>
                  (\<exists>vals'. getitem (data_sets out ! j) name = Inr vals'
                     \<and> length vals' = length vals \<and> length valid = length vals
                     \<and> (\<forall>i < length vals.
                          vals' ! i = (if valid ! i = Fin 0 then NaN else vals ! i))))
             \<and> (name \<in> set excluded_fields \<longrightarrow> getitem (data_sets out ! j) name = Inr vals))"
proof -
  from interpolate_success [OF assms] obtain m0 ms grid rs where
    ds: "data_sets sd = m0 # ms" and grid: "make_grid (bounds m0) spacing = Inr grid"
    and rs: "sample_all sample grid (data_sets sd) = Inr rs"
    and out: "out = \<lparr>data_sets = rs, sd_index = sd_index sd, sd_time = sd_time sd,
                 sd_load = sd_load sd, sd_metadata = sd_metadata sd\<rparr>"
    by blast
  have outds: "data_sets out = rs" using out by simp
  note sa = sample_all_success [OF rs]
  have len: "length (data_sets out) = length (data_sets sd)"
    using sa outds by simp
  have body: "(name \<notin> set excluded_fields \<longrightarrow>
                  (\<exists>vals'. getitem (data_sets out ! j) name = Inr vals'
                     \<and> length vals' = length vals \<and> length valid = length vals
                     \<and> (\<forall>i < length vals.
                          vals' ! i = (if valid ! i = Fin 0 then NaN else vals ! i))))
             \<and> (name \<in> set excluded_fields \<longrightarrow> getitem (data_sets out ! j) name = Inr vals)"
    if j: "j < length (data_sets sd)"
      and g: "getitem (sample grid (data_sets sd ! j)) name = Inr vals
           \<and> getitem (sample grid (data_sets sd ! j)) ''vtkValidPointMask'' = Inr valid"
    for j name vals valid
  proof -
    define r where "r = sample grid (data_sets sd ! j)"
    have run: "mask_fields (map fst (point_data r)) r = Inr (rs ! j)"
      using sa j by (simp add: sample_and_mask_def Let_def r_def)
    have lk: "map_of (point_data r) name = Some vals"
      using g by (simp add: getitem_Inr_iff r_def)
    have mk: "map_of (point_data r) ''vtkValidPointMask'' = Some valid"
      using g by (simp add: getitem_Inr_iff r_def)
    have mem: "name \<in> set (map fst (point_data r))"
      using lk by (metis map_of_eq_None_iff option.distinct(1) set_map)
    note ms = mask_fields_success [OF run mk]
    have look: "map_of (point_data (rs ! j)) name =
             (if name \<in> set (map fst (point_data r)) \<and> name \<notin> set excluded_fields
              then map_option (\<lambda>v. nan_where_invalid v valid) (map_of (point_data r) name)
              else map_of (point_data r) name)"
      using ms by blast
    show ?thesis
    proof (cases "name \<in> set excluded_fields")
      case True
      then show ?thesis using look lk outds by (simp add: getitem_Inr_iff)
    next
      case False
      have l: "length vals = length valid"
        using ms mem False lk by blast
      have got: "getitem (data_sets out ! j) name = Inr (nan_where_invalid vals valid)"
        using look lk mem False outds by (simp add: getitem_Inr_iff)
      have nth: "\<forall>i < length vals.
          nan_where_invalid vals valid ! i = (if valid ! i = Fin 0 then NaN else vals ! i)"
        using l by (simp add: nth_nan_where_invalid)
      have ln: "length (nan_where_invalid vals valid) = length vals"
        using l by (simp add: length_nan_where_invalid)
      show ?thesis using False got nth ln l by auto
    qed
  qed
  show ?thesis
    apply (rule exI [of _ m0], rule exI [of _ ms], rule exI [of _ grid])
    apply (intro conjI)
       apply (rule ds)
      apply (rule grid)
     apply (rule len)
    using body apply blast
    done
qed

lemma ex_grid_half:
  "make_grid (bounds example_mesh) (1 / 2) = Inr [(0, 0, 0), (0, 1, 0), (1, 0, 0), (1, 1, 0)]"
  by (simp add: example_mesh_def make_grid_def axis_coords_def linspace_def py_int_def
      grid_points_def bindE_def upt_rec)

lemma ex_grid_fifth:
  "make_grid (bounds example_mesh) (1 / 5) =
     Inr (grid_points [0, 1 / 4, 1 / 2, 3 / 4, 1] [0, 1 / 4, 1 / 2, 3 / 4, 1] 0)"
  by (simp add: example_mesh_def make_grid_def axis_coords_def linspace_def py_int_def
      bindE_def upt_rec)

lemma ex_data_sets: "data_sets example_sd = example_mesh # []"
  by (simp add: example_sd_def)

lemma ex_sample_all:
  "sample_all example_sample [(0, 0, 0), (0, 1, 0), (1, 0, 0), (1, 1, 0)] (data_sets example_sd)
     = Inr [\<lparr>points = [(0, 0, 0), (0, 1, 0), (1, 0, 0), (1, 1, 0)],
             point_data = [(''disp_x'', [Fin 0, Fin 0, NaN, NaN]),
                           (''vtkValidPointMask'', [Fin 1, Fin 1, Fin 0, Fin 0]),
                           (''ObjectId'', [Fin 0, Fin 0, Fin 0, Fin 0])],
             bounds = (0, 1, 0, 1, 0, 0)\<rparr>]"
  by (simp add: example_sd_def sample_and_mask_def example_sample_def getitem_def
      mask_field_def nan_where_invalid_def set_field_def excluded_fields_def example_mesh_def)

lemma ex_run:
  "interpolate_spatialdata_grid example_sample example_store example_sd (1 / 2) =
     (stamp_interpolated example_store (sd_metadata example_sd) (1 / 2),
      Inr \<lparr>data_sets =
             [\<lparr>points = [(0, 0, 0), (0, 1, 0), (1, 0, 0), (1, 1, 0)],
               point_data = [(''disp_x'', [Fin 0, Fin 0, NaN, NaN]),
                             (''vtkValidPointMask'', [Fin 1, Fin 1, Fin 0, Fin 0]),
                             (''ObjectId'', [Fin 0, Fin 0, Fin 0, Fin 0])],
               bounds = (0, 1, 0, 1, 0, 0)\<rparr>],
           sd_index = sd_index example_sd, sd_time = sd_time example_sd,
           sd_load = sd_load example_sd, sd_metadata = sd_metadata example_sd\<rparr>)"
  using ex_data_sets ex_grid_half ex_sample_all by (rule interpolate_result)

theorem interpolate_masks_invalid_witness:
  "\<exists>st' out vals'.
     interpolate_spatialdata_grid example_sample example_store example_sd (1 / 2) = (st', Inr out)
   \<and> getitem (example_sample [(0, 0, 0), (0, 1, 0), (1, 0, 0), (1, 1, 0)] example_mesh) ''disp_x''
       = Inr [Fin 0, Fin 0, Fin 0, Fin 0]
   \<and> getitem (data_sets out ! 0) ''disp_x'' = Inr vals'
   \<and> vals' ! 0 = Fin 0 \<and> vals' ! 2 = NaN \<and> vals' ! 3 = NaN
   \<and> getitem (data_sets out ! 0) ''vtkValidPointMask'' = Inr [Fin 1, Fin 1, Fin 0, Fin 0]"
proof -
  let ?grid = "[(0, 0, 0), (0, 1, 0), (1, 0, 0), (1, 1, 0)] :: point list"
  let ?out = "\<lparr>data_sets =
             [\<lparr>points = ?grid,
               point_data = [(''disp_x'', [Fin 0, Fin 0, NaN, NaN]),
                             (''vtkValidPointMask'', [Fin 1, Fin 1, Fin 0, Fin 0]),
                             (''ObjectId'', [Fin 0, Fin 0, Fin 0, Fin 0])],
               bounds = (0, 1, 0, 1, 0, 0)\<rparr>],
           sd_index = sd_index example_sd, sd_time = sd_time example_sd,
           sd_load = sd_load example_sd, sd_metadata = sd_metadata example_sd\<rparr>"
  note run = ex_run
  from interpolate_masks_invalid [OF run] obtain m0 ms grid where
    ds: "data_sets example_sd = m0 # ms"
    and grid: "make_grid (bounds m0) (1 / 2) = Inr grid"
    and masked: "\<forall>j < length (data_sets example_sd). \<forall>name vals valid.
             getitem (example_sample grid (data_sets example_sd ! j)) name = Inr vals
           \<and> getitem (example_sample grid (data_sets example_sd ! j)) ''vtkValidPointMask''
               = Inr valid \<longrightarrow>
               (name \<notin> set excluded_fields \<longrightarrow>
                  (\<exists>vals'. getitem (data_sets ?out ! j) name = Inr vals'
                     \<and> length vals' = length vals \<and> length valid = length vals
                     \<and> (\<forall>i < length vals.
                          vals' ! i = (if valid ! i = Fin 0 then NaN else vals ! i))))
             \<and> (name \<in> set excluded_fields \<longrightarrow> getitem (data_sets ?out ! j) name = Inr vals)"
    by blast
  have m0: "m0 = example_mesh" using ds by (simp add: ex_data_sets)
  have g: "grid = ?grid" using grid ex_grid_half by (simp add: m0)
  have src: "getitem (example_sample ?grid example_mesh) ''disp_x''
               = Inr [Fin 0, Fin 0, Fin 0, Fin 0]"
    by (simp add: getitem_def example_sample_def)
  have vld: "getitem (example_sample ?grid example_mesh) ''vtkValidPointMask''
               = Inr [Fin 1, Fin 1, Fin 0, Fin 0]"
    by (simp add: getitem_def example_sample_def)
  have j: "0 < length (data_sets example_sd)" by (simp add: ex_data_sets)
  have nth0: "data_sets example_sd ! 0 = example_mesh" by (simp add: ex_data_sets)
  have pre: "getitem (example_sample grid (data_sets example_sd ! 0)) ''disp_x''
                 = Inr [Fin 0, Fin 0, Fin 0, Fin 0]
             \<and> getitem (example_sample grid (data_sets example_sd ! 0)) ''vtkValidPointMask''
                 = Inr [Fin 1, Fin 1, Fin 0, Fin 0]"
    using src vld by (simp only: g nth0)
  note both = masked [rule_format, OF j pre]
  have "''disp_x'' \<notin> set excluded_fields" by (simp add: excluded_fields_def)
  with both obtain vals' where v: "getitem (data_sets ?out ! 0) ''disp_x'' = Inr vals'"
    and nth: "\<forall>i < length [Fin 0, Fin 0, Fin 0, Fin (0::real)].
                vals' ! i = (if [Fin 1, Fin 1, Fin 0, Fin 0] ! i = Fin 0 then NaN
                             else [Fin 0, Fin 0, Fin 0, Fin 0] ! i)"
    by blast
  have v0: "vals' ! 0 = Fin 0" using nth [rule_format, of 0] by simp
  have v2: "vals' ! 2 = NaN" using nth [rule_format, of 2] by simp
  have v3: "vals' ! 3 = NaN" using nth [rule_format, of 3] by simp
  have pre': "getitem (example_sample grid (data_sets example_sd ! 0)) ''vtkValidPointMask''
                 = Inr [Fin 1, Fin 1, Fin 0, Fin 0]
             \<and> getitem (example_sample grid (data_sets example_sd ! 0)) ''vtkValidPointMask''
                 = Inr [Fin 1, Fin 1, Fin 0, Fin 0]"
    using vld by (simp only: g nth0)
  have "getitem (data_sets ?out ! 0) ''vtkValidPointMask'' = Inr [Fin 1, Fin 1, Fin 0, Fin 0]"
    using masked [rule_format, OF j pre'] mask_name_excluded by blast
  with run src v v0 v2 v3 show ?thesis by blast
qed

lemma interpolate_shares_metadata:
  assumes "interpolate_spatialdata_grid sample st sd spacing = (st', Inr out)"
  shows "sd_metadata out = sd_metadata sd
       \<and> st' (sd_metadata sd) =
           (st (sd_metadata sd))(''interpolated'' \<mapsto> PBool True,
              ''interpolation_type'' \<mapsto> PStr ''grid'', ''grid_spacing'' \<mapsto> PFloat spacing)
       \<and> (\<forall>a. a \<noteq> sd_metadata sd \<longrightarrow> st' a = st a)
       \<and> sd_index out = sd_index sd \<and> sd_time out = sd_time sd \<and> sd_load out = sd_load sd"
proof -
  from interpolate_success [OF assms] obtain rs where
    st': "st' = stamp_interpolated st (sd_metadata sd) spacing"
    and out: "out = \<lparr>data_sets = rs, sd_index = sd_index sd, sd_time = sd_time sd,
                 sd_load = sd_load sd, sd_metadata = sd_metadata sd\<rparr>"
    by blast
  show ?thesis
    unfolding st' out by (simp add: stamp_interpolated_def setitem_def)
qed

text \<open>
  Claim C1 fails on the code: the call writes the three keys into the input container's
  own metadata dict, which the returned container then shares. Here the input's metadata
  is empty before the call and holds the three keys after it.
\<close>

theorem interpolate_mutates_input_metadata:
  "example_store (sd_metadata example_sd) = Map.empty
   \<and> fst (interpolate_spatialdata_grid example_sample example_store example_sd (1 / 2))
         (sd_metadata example_sd)
       = [''interpolated'' \<mapsto> PBool True, ''interpolation_type'' \<mapsto> PStr ''grid'',
          ''grid_spacing'' \<mapsto> PFloat (1 / 2)]
   \<and> (\<exists>out. snd (interpolate_spatialdata_grid example_sample example_store example_sd (1 / 2))
                = Inr out \<and> sd_metadata out = sd_metadata example_sd)"
  by (simp only: ex_run) (simp add: stamp_interpolated_def setitem_def example_store_def)

text \<open>
  For a positive spacing an axis gets \<open>\<lfloor>(hi - lo) / spacing\<rfloor>\<close> coordinates; when there are
  at least two, neighbours are \<open>(hi - lo) / (n - 1)\<close> apart, which is more than the spacing.
\<close>

lemma axis_coords_count:
  assumes "0 < spacing" and "lo \<le> hi"
  shows "\<exists>xs. axis_coords lo hi spacing = Inr xs \<and> length xs = nat \<lfloor>(hi - lo) / spacing\<rfloor>"
proof -
  have "0 \<le> (hi - lo) / spacing" using assms by simp
  then have n: "py_int ((hi - lo) / spacing) = \<lfloor>(hi - lo) / spacing\<rfloor>"
    and "0 \<le> \<lfloor>(hi - lo) / spacing\<rfloor>"
    by (simp_all add: py_int_def)
  then show ?thesis
    using assms(1) by (simp add: axis_coords_def linspace_def)
qed

lemma axis_coords_step:
  assumes "0 < spacing" and "2 \<le> \<lfloor>(hi - lo) / spacing\<rfloor>"
    and "axis_coords lo hi spacing = Inr xs" and "Suc i < length xs"
  shows "xs ! Suc i - xs ! i = (hi - lo) / (of_int \<lfloor>(hi - lo) / spacing\<rfloor> - 1)"
    and "spacing < xs ! Suc i - xs ! i"
proof -
  define n where "n = \<lfloor>(hi - lo) / spacing\<rfloor>"
  have n2: "2 \<le> n" using assms(2) by (simp add: n_def)
  have q: "of_int n \<le> (hi - lo) / spacing" unfolding n_def by (rule of_int_floor_le)
  then have q0: "0 \<le> (hi - lo) / spacing" using n2 by linarith
  then have pn: "py_int ((hi - lo) / spacing) = n" by (simp add: py_int_def n_def)
  have xs: "xs = map (\<lambda>i. lo + real i * ((hi - lo) / real (nat n - 1))) [0..<nat n]"
    using assms(1,3) n2 by (simp add: axis_coords_def linspace_def pn)
  have len: "length xs = nat n" using xs by simp
  have r: "real (nat n - 1) = of_int n - 1" using n2 by (simp add: of_nat_diff)
  have i1: "Suc i < nat n" using assms(4) len by simp
  define d where "d = (hi - lo) / real (nat n - 1)"
  have "xs ! Suc i = lo + real (Suc i) * d" "xs ! i = lo + real i * d"
    using i1 unfolding xs d_def by simp_all
  then have "xs ! Suc i - xs ! i = d"
    by (simp add: algebra_simps)
  then have "xs ! Suc i - xs ! i = (hi - lo) / real (nat n - 1)"
    by (simp only: d_def)
  then show d: "xs ! Suc i - xs ! i = (hi - lo) / (of_int \<lfloor>(hi - lo) / spacing\<rfloor> - 1)"
    using r by (simp add: n_def)
  have "of_int n * spacing \<le> hi - lo"
    using q assms(1) by (simp add: pos_le_divide_eq)
  moreover have "(of_int n - 1) * spacing < of_int n * spacing"
    using assms(1) by (simp add: algebra_simps)
  ultimately have "(of_int n - 1) * spacing < hi - lo" by linarith
  moreover have "0 < (of_int n - 1 :: real)" using n2 by simp
  ultimately have "spacing < (hi - lo) / (of_int n - 1)"
    by (simp add: pos_less_divide_eq mult.commute)
  then show "spacing < xs ! Suc i - xs ! i" using d by (simp add: n_def)
qed

text \<open>
  Claim C4 fails on the code: the grid does not have the given spacing. For the unit
  square and a spacing of \<open>1/5\<close> each axis gets \<open>5\<close> coordinates from \<open>0\<close> to \<open>1\<close>, a
  step of \<open>1/4\<close>.
\<close>

theorem make_grid_step_not_spacing:
  "bounds (data_sets example_sd ! 0) = (0, 1, 0, 1, 0, 0)
   \<and> axis_coords 0 1 (1 / 5) = Inr [0, 1 / 4, 1 / 2, 3 / 4, 1]
   \<and> make_grid (bounds (data_sets example_sd ! 0)) (1 / 5)
       = Inr (grid_points [0, 1 / 4, 1 / 2, 3 / 4, 1] [0, 1 / 4, 1 / 2, 3 / 4, 1] 0)"
  by (simp add: ex_data_sets ex_grid_fifth)
     (simp add: example_mesh_def axis_coords_def linspace_def py_int_def upt_rec)

section \<open>Properties of the window differentiator\<close>

lemma differentiate_all_None:
  assumes "differentiate_all lstsq ws pl ms = (None, ms')"
  shows "length ms' = length ms
       \<and> (\<forall>i < length ms. \<exists>r. differentiate_mesh lstsq ws (ms ! i) pl = Inr r
                                 \<and> ms' ! i = write_strains (ms ! i) r)"
  using assms
proof (induction ms arbitrary: ms')
  case Nil
  then show ?case by simp
next
  case (Cons m rest)
  from Cons.prems obtain r where r: "differentiate_mesh lstsq ws m pl = Inr r"
    by (cases "differentiate_mesh lstsq ws m pl") simp_all
  obtain res rest' where d: "differentiate_all lstsq ws pl rest = (res, rest')"
    by (cases "differentiate_all lstsq ws pl rest")
  have res: "res = None" and ms': "ms' = write_strains m r # rest'"
    using Cons.prems r d by simp_all
  from Cons.IH [OF d [unfolded res]] have ih: "length rest' = length rest"
    "\<forall>i < length rest. \<exists>r. differentiate_mesh lstsq ws (rest ! i) pl = Inr r
                                 \<and> rest' ! i = write_strains (rest ! i) r"
    by simp_all
  have "\<exists>q. differentiate_mesh lstsq ws ((m # rest) ! i) pl = Inr q
            \<and> ms' ! i = write_strains ((m # rest) ! i) q"
    if "i < length (m # rest)" for i
    using that r ih(2) ms' by (cases i) simp_all
  then show ?case using ih(1) ms' by simp
qed


lemma stamp_lookup:
  "stamp st a dr ws a =
     (st a)(''dic_filter'' \<mapsto> PBool True, ''window_size'' \<mapsto> PInt ws, ''data_range'' \<mapsto> PStr dr)"
  "b \<noteq> a \<Longrightarrow> stamp st a dr ws b = st b"
  by (simp_all add: stamp_def setitem_def)

lemma stamp_idem: "stamp (stamp st a dr ws) a dr ws = stamp st a dr ws"
  by (rule ext) (simp add: stamp_def setitem_def)

lemma window_differentation_Cons:
  assumes "data_sets sd = m0 # ms"
  shows "window_differentation pnl lstsq st sd dr ws =
     (let pl = get_points_neighbours pnl m0 ws;
          st' = stamp st (sd_metadata sd) dr ws
      in if dr = ''all'' then
           (case differentiate_all lstsq ws pl (data_sets sd) of
              (res, ms') \<Rightarrow> (res, st', sd\<lparr>data_sets := ms'\<rparr>))
         else if dr = ''last'' then
           (case differentiate_mesh lstsq ws (last (data_sets sd)) pl of
              Inl e \<Rightarrow> (Some e, st', sd)
            | Inr r \<Rightarrow>
               (None, st',
                sd\<lparr>data_sets := butlast (data_sets sd) @ [write_strains (last (data_sets sd)) r]\<rparr>))
         else (None, st', sd))"
  unfolding window_differentation_def Let_def assms by simp

lemma ex_neighbours:
  "get_points_neighbours example_neighbours example_point_mesh 5 = [[0]]"
  by (simp add: get_points_neighbours_def example_neighbours_def example_point_mesh_def)

lemma ex_differentiate_point:
  "differentiate_mesh lstsq_xy 5 example_point_mesh [[0]] = Inr ([NaN], [NaN], [NaN])"
  by (simp add: differentiate_mesh_def point_gradients_def take_idx_def getitem_def
      example_point_mesh_def evaluate_point_dev_n_def bindE_def Let_def
      euler_almansi_n_def exx_arg_def eyy_arg_def bc2_def fl_pow2_def)


lemma ex_write:
  "write_strains example_point_mesh ([NaN], [NaN], [NaN]) = example_written_mesh"
  by (simp add: write_strains_def set_field_def example_point_mesh_def example_written_mesh_def)


lemma ex_run_all:
  "window_differentation example_neighbours lstsq_xy example_store
       (example_series [example_point_mesh, example_point_mesh]) ''all'' 5
     = (None, stamp example_store 0 ''all'' 5,
        example_series [example_point_mesh, example_point_mesh]
          \<lparr>data_sets := [example_written_mesh, example_written_mesh]\<rparr>)"
  by (simp add: window_differentation_def example_series_def ex_neighbours
      ex_differentiate_point ex_write Let_def)

lemma ex_run_last:
  "window_differentation example_neighbours lstsq_xy example_store
       (example_series [example_point_mesh, example_point_mesh]) ''last'' 5
     = (None, stamp example_store 0 ''last'' 5,
        example_series [example_point_mesh, example_point_mesh]
          \<lparr>data_sets := [example_point_mesh, example_written_mesh]\<rparr>)"
  by (simp add: window_differentation_def example_series_def ex_neighbours
      ex_differentiate_point ex_write Let_def)

lemma ex_run_other:
  "window_differentation example_neighbours lstsq_xy example_store
       (example_series [example_point_mesh, example_point_mesh]) ''first'' 5
     = (None, stamp example_store 0 ''first'' 5,
        example_series [example_point_mesh, example_point_mesh])"
  by (simp add: window_differentation_def example_series_def Let_def)

lemma ex_run_empty:
  "window_differentation example_neighbours lstsq_xy example_store (example_series []) ''all'' 5
     = (Some IndexError, example_store, example_series [])"
  by (simp add: window_differentation_def example_series_def)


lemma differentiate_mesh_missing_disp_x:
  assumes "points m \<noteq> []" and "points_list \<noteq> []"
    and "list_all (\<lambda>i. i < length (points m)) (points_list ! 0)"
    and "map_of (point_data m) ''disp_x'' = None"
  shows "differentiate_mesh lstsq ws m points_list = Inl (KeyError ''disp_x'')"
proof -
  have "point_gradients lstsq ws m points_list 0 = Inl (KeyError ''disp_x'')"
    using assms(2,3,4) by (simp add: point_gradients_def take_idx_def getitem_def bindE_def)
  moreover have "[0..<length (points m)] = 0 # [1..<length (points m)]"
    using assms(1) by (simp add: upt_conv_Cons)
  ultimately show ?thesis
    by (simp add: differentiate_mesh_def bindE_def)
qed




text \<open>
  Claim C6, as stated, fails on a container without snapshots: \<^verbatim>\<open>data_sets[0]\<close> raises
  before the metadata is written, so none of the three keys is set.
\<close>

theorem window_differentation_empty_counterexample:
  "window_differentation example_neighbours lstsq_xy example_store (example_series []) ''all'' 5
     = (Some IndexError, example_store, example_series [])
   \<and> example_store (sd_metadata (example_series [])) ''dic_filter'' = None
   \<and> example_store (sd_metadata (example_series [])) ''window_size'' = None
   \<and> example_store (sd_metadata (example_series [])) ''data_range'' = None"
  by (simp add: ex_run_empty) (simp add: example_store_def)

text \<open>
  Claim C6, amended: on a container with at least one snapshot the call sets the metadata
  keys \<^verbatim>\<open>dic_filter\<close>, \<^verbatim>\<open>window_size\<close> and \<^verbatim>\<open>data_range\<close> whatever \<^verbatim>\<open>data_range\<close> is
  and whether or not it raises later. A \<^verbatim>\<open>data_range\<close> other than \<^verbatim>\<open>'all'\<close> and
  \<^verbatim>\<open>'last'\<close> computes nothing and leaves the container as it is; a call that returns
  has, with \<^verbatim>\<open>'last'\<close>, written the strains of the final snapshot only and, with
  \<^verbatim>\<open>'all'\<close>, those of every snapshot.
\<close>

theorem window_differentation_data_range:
  assumes "data_sets sd = m0 # ms"
    and "window_differentation pnl lstsq st sd dr ws = (res, st', sd')"
  shows "st' (sd_metadata sd) =
           (st (sd_metadata sd))(''dic_filter'' \<mapsto> PBool True, ''window_size'' \<mapsto> PInt ws,
              ''data_range'' \<mapsto> PStr dr)
       \<and> (dr \<noteq> ''all'' \<and> dr \<noteq> ''last'' \<longrightarrow> res = None \<and> sd' = sd)
       \<and> (dr = ''last'' \<and> res = None \<longrightarrow>
            (\<exists>r. differentiate_mesh lstsq ws (last (data_sets sd))
                    (get_points_neighbours pnl m0 ws) = Inr r
                \<and> sd' = sd\<lparr>data_sets :=
                            butlast (data_sets sd) @ [write_strains (last (data_sets sd)) r]\<rparr>))
       \<and> (dr = ''all'' \<and> res = None \<longrightarrow>
            sd' = sd\<lparr>data_sets := data_sets sd'\<rparr>
          \<and> length (data_sets sd') = length (data_sets sd)
          \<and> (\<forall>i < length (data_sets sd). \<exists>r.
                differentiate_mesh lstsq ws (data_sets sd ! i)
                    (get_points_neighbours pnl m0 ws) = Inr r
              \<and> data_sets sd' ! i = write_strains (data_sets sd ! i) r))"
proof -
  let ?pl = "get_points_neighbours pnl m0 ws"
  note run = assms(2) [unfolded window_differentation_Cons [OF assms(1)] Let_def]
  have st': "st' = stamp st (sd_metadata sd) dr ws"
    using run by (auto split: if_splits prod.splits sum.splits)
  have meta: "st' (sd_metadata sd) =
           (st (sd_metadata sd))(''dic_filter'' \<mapsto> PBool True, ''window_size'' \<mapsto> PInt ws,
              ''data_range'' \<mapsto> PStr dr)"
    unfolding st' by (rule stamp_lookup(1))
  have other: "res = None \<and> sd' = sd" if "dr \<noteq> ''all'' \<and> dr \<noteq> ''last''"
    using run that by simp
  have lastc: "\<exists>r. differentiate_mesh lstsq ws (last (data_sets sd)) ?pl = Inr r
                \<and> sd' = sd\<lparr>data_sets :=
                            butlast (data_sets sd) @ [write_strains (last (data_sets sd)) r]\<rparr>"
    if "dr = ''last'' \<and> res = None"
    using run that
    by (cases "differentiate_mesh lstsq ws (last (data_sets sd)) ?pl") auto
  have allc: "sd' = sd\<lparr>data_sets := data_sets sd'\<rparr>
          \<and> length (data_sets sd') = length (data_sets sd)
          \<and> (\<forall>i < length (data_sets sd). \<exists>r.
                differentiate_mesh lstsq ws (data_sets sd ! i) ?pl = Inr r
              \<and> data_sets sd' ! i = write_strains (data_sets sd ! i) r)"
    if h: "dr = ''all'' \<and> res = None"
  proof -
    obtain res' ms' where d: "differentiate_all lstsq ws ?pl (data_sets sd) = (res', ms')"
      by (cases "differentiate_all lstsq ws ?pl (data_sets sd)")
    have res': "res' = None" and sd': "sd' = sd\<lparr>data_sets := ms'\<rparr>"
      using run h d by simp_all
    have ds: "data_sets sd' = ms'" using sd' by simp
    note da = differentiate_all_None [OF d [unfolded res']]
    have "sd' = sd\<lparr>data_sets := data_sets sd'\<rparr>" using sd' by simp
    then show ?thesis using da unfolding ds by blast
  qed
  show ?thesis using meta other lastc allc by blast
qed

theorem window_differentation_data_range_witness:
  "window_differentation example_neighbours lstsq_xy example_store
       (example_series [example_point_mesh, example_point_mesh]) ''all'' 5
     = (None, stamp example_store 0 ''all'' 5,
        example_series [example_point_mesh, example_point_mesh]
          \<lparr>data_sets := [example_written_mesh, example_written_mesh]\<rparr>)
   \<and> stamp example_store 0 ''all'' 5 0
       = [''dic_filter'' \<mapsto> PBool True, ''window_size'' \<mapsto> PInt 5, ''data_range'' \<mapsto> PStr ''all'']
   \<and> window_differentation example_neighbours lstsq_xy example_store
       (example_series [example_point_mesh, example_point_mesh]) ''last'' 5
     = (None, stamp example_store 0 ''last'' 5,
        example_series [example_point_mesh, example_point_mesh]
          \<lparr>data_sets := [example_point_mesh, example_written_mesh]\<rparr>)
   \<and> stamp example_store 0 ''last'' 5 0
       = [''dic_filter'' \<mapsto> PBool True, ''window_size'' \<mapsto> PInt 5, ''data_range'' \<mapsto> PStr ''last'']
   \<and> window_differentation example_neighbours lstsq_xy example_store
       (example_series [example_point_mesh, example_point_mesh]) ''first'' 5
     = (None, stamp example_store 0 ''first'' 5,
        example_series [example_point_mesh, example_point_mesh])
   \<and> stamp example_store 0 ''first'' 5 0
       = [''dic_filter'' \<mapsto> PBool True, ''window_size'' \<mapsto> PInt 5, ''data_range'' \<mapsto> PStr ''first'']"
proof -
  let ?sd = "example_series [example_point_mesh, example_point_mesh]"
  have ds: "data_sets ?sd = example_point_mesh # [example_point_mesh]"
    by (simp add: example_series_def)
  have md: "sd_metadata ?sd = 0" by (simp add: example_series_def)
  have e: "example_store 0 = Map.empty" by (simp add: example_store_def)
  note a = window_differentation_data_range [OF ds ex_run_all, unfolded md e]
  note l = window_differentation_data_range [OF ds ex_run_last, unfolded md e]
  note f = window_differentation_data_range [OF ds ex_run_other, unfolded md e]
  show ?thesis
    using a l f ex_run_all ex_run_last ex_run_other by blast
qed

end
